theory Spec2Isabelle
  imports Main "HOL-Library.Sublist"
begin

section \<open>Values exchanged with the fitness API\<close>

text \<open>
  Routines, exercises and page responses are Python dictionaries decoded from JSON. A
  dictionary is an association list of keys and values; \<open>d.get(k)\<close> is the first binding
  of \<open>k\<close>, or \<open>None\<close>. Numbers are integers: no modelled operation looks inside a number.
\<close>

datatype jval =
    JNull
  | JBool bool
  | JInt int
  | JStr string
  | JList "jval list"
  | JObj "(string \<times> jval) list"

type_synonym dict = "(string \<times> jval) list"

text \<open>Python truth value of a value (\<open>if x\<close>, \<open>not x\<close>).\<close>

fun truthy :: "jval \<Rightarrow> bool" where
  "truthy JNull = False"
| "truthy (JBool b) = b"
| "truthy (JInt n) = (n \<noteq> 0)"
| "truthy (JStr s) = (s \<noteq> [])"
| "truthy (JList xs) = (xs \<noteq> [])"
| "truthy (JObj d) = (d \<noteq> [])"

text \<open>\<open>d.get(k)\<close> and \<open>d.get(k, default)\<close>.\<close>

definition dict_get :: "dict \<Rightarrow> string \<Rightarrow> jval" where
  "dict_get d k = (case map_of d k of None \<Rightarrow> JNull | Some v \<Rightarrow> v)"

definition dict_get_default :: "dict \<Rightarrow> string \<Rightarrow> jval \<Rightarrow> jval" where
  "dict_get_default d k dflt = (case map_of d k of None \<Rightarrow> dflt | Some v \<Rightarrow> v)"

text \<open>\<open>d.pop(k, None)\<close>, keeping only the dictionary left behind.\<close>

definition dict_pop :: "string \<Rightarrow> dict \<Rightarrow> dict" where
  "dict_pop k d = filter (\<lambda>kv. fst kv \<noteq> k) d"

text \<open>
  Exceptions of the modelled code. An \<open>AttributeError\<close> carries the type of the object and
  the attribute asked for; the others carry their message. \<open>CollaboratorError\<close> is any
  exception raised inside a collaborator (the completion endpoint, the fitness API), with
  its \<open>str(e)\<close>.
\<close>

datatype error =
    AttributeError string string
  | TypeError string
  | ValueError string
  | CollaboratorError string

text \<open>\<open>type(v).__name__\<close> of a decoded value.\<close>

fun type_name :: "jval \<Rightarrow> string" where
  "type_name JNull = ''NoneType''"
| "type_name (JBool b) = ''bool''"
| "type_name (JInt n) = ''int''"
| "type_name (JStr s) = ''str''"
| "type_name (JList xs) = ''list''"
| "type_name (JObj d) = ''dict''"

section \<open>Strings: lower-casing, stripping and the choice pattern\<close>

text \<open>
  A character is a code point below 256 (Latin-1), read as Python reads it in a \<open>str\<close>.
  For these, \<open>str.lower\<close> maps \<open>A\<close>..\<open>Z\<close> and the accented capitals 0xC0..0xDE (but
  not the sign 0xD7) to the letter 0x20 further on; the white space of \<open>\s\<close> and of
  \<open>str.strip\<close> is tab, line feed, vertical tab, form feed, carriage return, the four
  separators 0x1C..0x1F, the space, next line 0x85 and the no-break space 0xA0; the word
  characters of \<open>\w\<close> are the ASCII letters and digits, the underscore, and the letters and
  numeric characters above 0x7F. Under \<open>re.IGNORECASE\<close> a character matches a lower-case
  ASCII letter of the pattern when its lower-case form is that letter.
\<close>

definition upper_letters :: "char list" where
  "upper_letters =
     ''ABCDEFGHIJKLMNOPQRSTUVWXYZ'' @
     [CHR 0xC0, CHR 0xC1, CHR 0xC2, CHR 0xC3, CHR 0xC4, CHR 0xC5, CHR 0xC6,
      CHR 0xC7, CHR 0xC8, CHR 0xC9, CHR 0xCA, CHR 0xCB, CHR 0xCC, CHR 0xCD,
      CHR 0xCE, CHR 0xCF, CHR 0xD0, CHR 0xD1, CHR 0xD2, CHR 0xD3, CHR 0xD4,
      CHR 0xD5, CHR 0xD6, CHR 0xD8, CHR 0xD9, CHR 0xDA, CHR 0xDB, CHR 0xDC,
      CHR 0xDD, CHR 0xDE]"

definition lower_letters :: "char list" where
  "lower_letters =
     ''abcdefghijklmnopqrstuvwxyz'' @
     [CHR 0xE0, CHR 0xE1, CHR 0xE2, CHR 0xE3, CHR 0xE4, CHR 0xE5, CHR 0xE6,
      CHR 0xE7, CHR 0xE8, CHR 0xE9, CHR 0xEA, CHR 0xEB, CHR 0xEC, CHR 0xED,
      CHR 0xEE, CHR 0xEF, CHR 0xF0, CHR 0xF1, CHR 0xF2, CHR 0xF3, CHR 0xF4,
      CHR 0xF5, CHR 0xF6, CHR 0xF8, CHR 0xF9, CHR 0xFA, CHR 0xFB, CHR 0xFC,
      CHR 0xFD, CHR 0xFE]"

definition lower_char :: "char \<Rightarrow> char" where
  "lower_char c =
     (case map_of (zip upper_letters lower_letters) c of
        Some l \<Rightarrow> l
      | None \<Rightarrow> c)"

definition lower :: "string \<Rightarrow> string" where
  "lower s = map lower_char s"

definition is_space :: "char \<Rightarrow> bool" where
  "is_space c = (c \<in> set [CHR 0x09, CHR 0x0A, CHR 0x0B, CHR 0x0C, CHR 0x0D,
                            CHR 0x1C, CHR 0x1D, CHR 0x1E, CHR 0x1F, CHR 0x20,
                            CHR 0x85, CHR 0xA0])"

definition is_word :: "char \<Rightarrow> bool" where
  "is_word c =
     (c \<in> set (''abcdefghijklmnopqrstuvwxyzABCDEFGHIJKLMNOPQRSTUVWXYZ0123456789_'' @
        [CHR 0xAA, CHR 0xB2, CHR 0xB3, CHR 0xB5, CHR 0xB9, CHR 0xBA,
         CHR 0xBC, CHR 0xBD, CHR 0xBE, CHR 0xC0, CHR 0xC1, CHR 0xC2,
         CHR 0xC3, CHR 0xC4, CHR 0xC5, CHR 0xC6, CHR 0xC7, CHR 0xC8,
         CHR 0xC9, CHR 0xCA, CHR 0xCB, CHR 0xCC, CHR 0xCD, CHR 0xCE,
         CHR 0xCF, CHR 0xD0, CHR 0xD1, CHR 0xD2, CHR 0xD3, CHR 0xD4,
         CHR 0xD5, CHR 0xD6, CHR 0xD8, CHR 0xD9, CHR 0xDA, CHR 0xDB,
         CHR 0xDC, CHR 0xDD, CHR 0xDE, CHR 0xDF, CHR 0xE0, CHR 0xE1,
         CHR 0xE2, CHR 0xE3, CHR 0xE4, CHR 0xE5, CHR 0xE6, CHR 0xE7,
         CHR 0xE8, CHR 0xE9, CHR 0xEA, CHR 0xEB, CHR 0xEC, CHR 0xED,
         CHR 0xEE, CHR 0xEF, CHR 0xF0, CHR 0xF1, CHR 0xF2, CHR 0xF3,
         CHR 0xF4, CHR 0xF5, CHR 0xF6, CHR 0xF8, CHR 0xF9, CHR 0xFA,
         CHR 0xFB, CHR 0xFC, CHR 0xFD, CHR 0xFE, CHR 0xFF]))"

definition strip :: "string \<Rightarrow> string" where
  "strip s = rev (dropWhile is_space (rev (dropWhile is_space s)))"

text \<open>The character class \<open>[\w\s\(\)-]\<close> of the captured group.\<close>

definition in_class :: "char \<Rightarrow> bool" where
  "in_class c = (is_word c \<or> is_space c \<or> c \<in> set ''()-'')"

text \<open>The alternatives \<open>(?:use|with|go with|choose|select)\<close>, in the pattern's order.\<close>

definition choice_verbs :: "string list" where
  "choice_verbs = [''use'', ''with'', ''go with'', ''choose'', ''select'']"

text \<open>
  What follows the verb: \<open>\s+([\w\s\(\)-]+)\<close>. The greedy \<open>\s+\<close> takes the whole run of
  white space; the group then needs one character of its class. When the next character is
  not in the class (or the text ends), the matcher gives the last white-space character back
  to the group, which needs the run to have two characters at least.
\<close>

definition match_tail :: "string \<Rightarrow> string option" where
  "match_tail r =
     (let ws = takeWhile is_space r; rest = dropWhile is_space r in
      if ws = [] then None
      else if rest \<noteq> [] \<and> in_class (hd rest) then Some (takeWhile in_class rest)
      else if 2 \<le> length ws then Some [last ws]
      else None)"

text \<open>The pattern tried at the start of \<open>s\<close>, alternatives in order, ignoring case.\<close>

fun match_verbs :: "string list \<Rightarrow> string \<Rightarrow> string option" where
  "match_verbs [] s = None"
| "match_verbs (v # vs) s =
     (if lower (take (length v) s) = v
      then (case match_tail (drop (length v) s) of
              Some g \<Rightarrow> Some g
            | None \<Rightarrow> match_verbs vs s)
      else match_verbs vs s)"

text \<open>\<open>re.search\<close>: the leftmost position where the pattern matches; the result is group 1.\<close>

fun re_search_choice :: "string \<Rightarrow> string option" where
  "re_search_choice [] = match_verbs choice_verbs []"
| "re_search_choice (c # cs) =
     (case match_verbs choice_verbs (c # cs) of
        Some g \<Rightarrow> Some g
      | None \<Rightarrow> re_search_choice cs)"

section \<open>The optimizer's state and its collaborators\<close>

datatype role = System | User | Assistant

text \<open>
  A prompt is one of the handler's f-string templates together with the values put into it;
  the text of the templates is not modelled.
\<close>

datatype prompt =
    SystemDefault
  | SwapNameMissing
  | SwapCacheEmpty jval
  | SwapAlternatives jval jval "string option" "(string option \<times> string option) list"
  | SwapNoAlternatives jval "string option" jval
  | SwapUnknownExercise jval jval
  | NoPendingSwap
  | ChoiceUnclear string
  | LostDetails
  | ImplementCacheEmpty string
  | ImplementTitleNotFound string
  | ImplementMissingId string
  | ImplementStale string jval
  | ImplementDone jval string string
  | ImplementFailed jval string string
  | Unimplemented string string dict
  | InfoPrompt string string string
  | StoredAnalysisPrompt jval jval string
  | AnalysisPrompt string string dict
  | ProgramAnalysisPrompt string

datatype content = Text string | Prompt prompt

type_synonym turn = "role \<times> content"

text \<open>
  An entry of the template cache, as \<open>get_all_exercise_templates\<close> builds it: the three
  keys \<open>title\<close>, \<open>id\<close> and \<open>primary_muscle_group\<close>, each a string or \<open>None\<close>.
\<close>

record template =
  title :: "string option"
  id :: "string option"
  primary_muscle_group :: "string option"

text \<open>A suggestion shown to the user: the keys \<open>name\<close>, \<open>id\<close> and \<open>muscles\<close>.\<close>

record suggestion =
  name :: "string option"
  sugg_id :: "string option"
  muscles :: "string option"

text \<open>The dictionary stored in \<open>pending_swap_context\<close>.\<close>

record pending_swap =
  ptype :: string
  routine_id :: jval
  routine_name :: jval
  exercise_to_swap_title :: string
  suggestions :: "suggestion list"
  current_exercises :: jval

text \<open>Calls that leave the process, in the order they are made.\<close>

datatype event =
    Completion "turn list" "string option"
  | Classify string "turn list"
  | ResolveContext string string
  | UpdateRoutine jval dict
  | FetchTemplates
  | FetchProgram

text \<open>
  The one \<open>AIWorkoutOptimizer\<close> instance with the class variable \<open>_cached_templates\<close>
  (\<open>None\<close> until the first load) and the log of outside calls.
\<close>

record optimizer =
  conversation_history :: "turn list"
  pending_swap_context :: "pending_swap option"
  cached_templates :: "template list option"
  calls :: "event list"

text \<open>
  The collaborators; each returns its result or the exception it raises. The completion
  endpoint answers the messages sent; \<open>update_routine\<close> is the PUT of the fitness API;
  \<open>get_all_exercise_templates\<close> is the template fetch; \<open>classify_intent\<close> and
  \<open>get_relevant_context\<close> are the intent service. The text formatting of the information
  and program-analysis prompts is not modelled (it prints floating-point weights): it is
  given as functions that return the text or raise.
\<close>

record env =
  complete :: "turn list \<Rightarrow> error + string"
  update_routine :: "jval \<Rightarrow> dict \<Rightarrow> error + jval"
  get_all_exercise_templates :: "error + template list"
  classify_intent :: "string \<Rightarrow> turn list \<Rightarrow> string"
  get_relevant_context :: "string \<Rightarrow> string \<Rightarrow> dict"
  format_info_context :: "string \<Rightarrow> dict \<Rightarrow> error + string"
  get_current_program_details :: "error + jval"
  program_prompt :: "jval \<Rightarrow> template list \<Rightarrow> string \<Rightarrow> string + (string \<times> string)"

text \<open>Truth value of an optional string (\<open>None\<close> and \<open>""\<close> are false).\<close>

fun truthy_str :: "string option \<Rightarrow> bool" where
  "truthy_str None = False"
| "truthy_str (Some s) = (s \<noteq> [])"

subsection \<open>\<open>get_chat_response\<close>\<close>

text \<open>
  The messages sent are the system prompt, the whole history and the new message. When the
  completion returns, the message and the reply are appended to the history; when it
  raises, the exception is re-raised and the history is as before.
\<close>

definition get_chat_response :: "env \<Rightarrow> content \<Rightarrow> optimizer \<Rightarrow> (error + string) \<times> optimizer" where
  "get_chat_response E message s =
     (let messages = (System, Prompt SystemDefault) # conversation_history s @ [(User, message)];
          reply = complete E messages;
          s1 = s\<lparr>calls := calls s @
                 [Completion messages (case reply of Inl e \<Rightarrow> None | Inr r \<Rightarrow> Some r)]\<rparr> in
      case reply of
        Inl e \<Rightarrow> (Inl e, s1)
      | Inr response_text \<Rightarrow>
          (Inr response_text,
           s1\<lparr>conversation_history :=
                 conversation_history s1 @ [(User, message), (Assistant, Text response_text)]\<rparr>))"

subsection \<open>\<open>load_templates_cache\<close>\<close>

definition load_templates_cache :: "env \<Rightarrow> optimizer \<Rightarrow> optimizer" where
  "load_templates_cache E s =
     (case cached_templates s of
        None \<Rightarrow>
          (let s1 = s\<lparr>calls := calls s @ [FetchTemplates]\<rparr> in
           case get_all_exercise_templates E of
             Inr ts \<Rightarrow> s1\<lparr>cached_templates := Some ts\<rparr>
           | Inl e \<Rightarrow> s1\<lparr>cached_templates := Some []\<rparr>)
      | Some ts \<Rightarrow> s)"

section \<open>History endpoints of the chat router\<close>

datatype http_exception = HTTPException nat string

text \<open>
  The names an \<open>AIWorkoutOptimizer\<close> instance answers to: the methods of the class, the
  class variable and the attributes set in \<open>__init__\<close>. Any other name raises
  \<open>AttributeError\<close>.
\<close>

definition AIWorkoutOptimizer_attributes :: "string list" where
  "AIWorkoutOptimizer_attributes =
     [''_cached_templates'', ''__init__'', ''load_templates_cache'', ''get_chat_response'',
      ''clear_conversation_history'', ''get_conversation_history'',
      ''get_ai_optimization_insights'', ''_prepare_ai_context'', ''_get_ai_insights'',
      ''_parse_ai_response'', ''get_info_response'', ''get_analysis_response'',
      ''get_modification_response'', ''chat_about_workout_optimization'', ''analyze_program'',
      ''_prepare_program_context'', ''_get_rep_range'', ''_get_weight_range'',
      ''_get_program_analysis'', ''_parse_program_analysis'', ''_extract_user_goal'',
      ''workout_optimizer'', ''hevy_api'', ''client'', ''conversation_history'',
      ''pending_swap_context'']"

definition lookup_attribute :: "string \<Rightarrow> error + unit" where
  "lookup_attribute attr =
     (if attr \<in> set AIWorkoutOptimizer_attributes then Inr ()
      else Inl (AttributeError ''AIWorkoutOptimizer'' attr))"

text \<open>\<open>str(e)\<close> of an exception, as the handlers put it into their detail text.\<close>

fun error_str :: "error \<Rightarrow> string" where
  "error_str (AttributeError ty attr) =
     [CHR 0x27] @ ty @ [CHR 0x27] @ '' object has no attribute '' @ [CHR 0x27] @ attr @ [CHR 0x27]"
| "error_str (TypeError m) = m"
| "error_str (ValueError m) = m"
| "error_str (CollaboratorError m) = m"

definition get_conversation_history :: "optimizer \<Rightarrow> turn list" where
  "get_conversation_history s = conversation_history s"


text \<open>
  \<open>POST /save\<close> and \<open>POST /load\<close> call \<open>ai_optimizer.save_conversation_history(filepath)\<close>
  and \<open>ai_optimizer.load_conversation_history(filepath)\<close> inside \<open>try\<close>; every exception of
  the call becomes an \<open>HTTPException\<close> with status 500 (\<open>load\<close> answers 404 to a
  \<open>FileNotFoundError\<close>, which an attribute lookup does not raise).
\<close>

definition save_chat_history :: "string \<Rightarrow> optimizer \<Rightarrow> (http_exception + (string \<times> string) list) \<times> optimizer" where
  "save_chat_history filepath s =
     (case lookup_attribute ''save_conversation_history'' of
        Inl e \<Rightarrow> (Inl (HTTPException 500 (''Failed to save chat history: '' @ error_str e)), s)
      | Inr u \<Rightarrow>
          (Inr [(''status'', ''success''), (''message'', ''Chat history saved to '' @ filepath)], s))"

definition load_chat_history :: "string \<Rightarrow> optimizer \<Rightarrow> (http_exception + (string \<times> string) list) \<times> optimizer" where
  "load_chat_history filepath s =
     (case lookup_attribute ''load_conversation_history'' of
        Inl e \<Rightarrow> (Inl (HTTPException 500 (''Failed to load chat history: '' @ error_str e)), s)
      | Inr u \<Rightarrow>
          (Inr [(''status'', ''success''), (''message'', ''Chat history loaded from '' @ filepath)], s))"

section \<open>The modification handler: the two phases of an exercise swap\<close>

subsection \<open>Propose phase (intent \<open>EXERCISE_SWAP\<close>)\<close>

text \<open>\<open>template.get('title') == v\<close> for a value \<open>v\<close> of the request context.\<close>

fun title_eq :: "string option \<Rightarrow> jval \<Rightarrow> bool" where
  "title_eq (Some t) (JStr u) = (t = u)"
| "title_eq None JNull = True"
| "title_eq a v = False"

text \<open>
  The first loop: the muscle group of the first cached template whose title is the exercise
  name (\<open>None\<close> when no template has that title).
\<close>

fun find_muscle :: "template list \<Rightarrow> jval \<Rightarrow> string option" where
  "find_muscle [] nm = None"
| "find_muscle (t # ts) nm =
     (if title_eq (title t) nm then primary_muscle_group t else find_muscle ts nm)"

text \<open>
  The second loop: every cached template of that muscle group whose title is not the
  exercise name, in cache order, as a suggestion.
\<close>

definition potential_swaps :: "template list \<Rightarrow> jval \<Rightarrow> string option \<Rightarrow> suggestion list" where
  "potential_swaps ts nm muscle =
     map (\<lambda>t. \<lparr>name = title t, sugg_id = id t, muscles = primary_muscle_group t\<rparr>)
       (filter (\<lambda>t. primary_muscle_group t = muscle \<and> \<not> title_eq (title t) nm) ts)"

text \<open>\<open>target_routine.get(k, default)\<close>: only a dictionary has \<open>get\<close>.\<close>

fun obj_get_default :: "jval \<Rightarrow> string \<Rightarrow> jval \<Rightarrow> error + jval" where
  "obj_get_default (JObj d) k dflt = Inr (dict_get_default d k dflt)"
| "obj_get_default v k dflt = Inl (AttributeError (type_name v) ''get'')"

text \<open>The name stored in the pending context; it equals a template title, so it is a string.\<close>

fun str_of :: "jval \<Rightarrow> string" where
  "str_of (JStr n) = n"
| "str_of v = []"

text \<open>The prompt of the propose phase: the alternatives, or why there are none.\<close>

definition swap_prompt :: "jval \<Rightarrow> jval \<Rightarrow> string option \<Rightarrow> suggestion list \<Rightarrow> prompt" where
  "swap_prompt exercise_to_swap_name rname exercise_to_swap_muscle swaps =
     (if swaps \<noteq> []
      then SwapAlternatives exercise_to_swap_name rname exercise_to_swap_muscle
             (map (\<lambda>g. (name g, muscles g)) (take 5 swaps))
      else if truthy_str exercise_to_swap_muscle
      then SwapNoAlternatives exercise_to_swap_name exercise_to_swap_muscle rname
      else SwapUnknownExercise exercise_to_swap_name rname)"

text \<open>
  Lines 527 to 546, after the completion has returned: the pending context is stored when
  the routine, the exercise name and the alternatives are all there, and cleared otherwise.
  The suggestions stored are the five shown at most.
\<close>

definition store_pending_swap :: "jval \<Rightarrow> jval \<Rightarrow> jval \<Rightarrow> suggestion list \<Rightarrow> string \<Rightarrow> optimizer \<Rightarrow> (error + string) \<times> optimizer" where
  "store_pending_swap target_routine rname exercise_to_swap_name swaps response s =
     (if truthy target_routine \<and> truthy exercise_to_swap_name \<and> swaps \<noteq> []
      then
        (case (obj_get_default target_routine ''id'' JNull,
               obj_get_default target_routine ''exercises'' (JList [])) of
           (Inr rid, Inr exs) \<Rightarrow>
             (Inr response,
              s\<lparr>pending_swap_context :=
                   Some \<lparr>ptype = ''EXERCISE_SWAP'',
                         routine_id = rid,
                         routine_name = rname,
                         exercise_to_swap_title = str_of exercise_to_swap_name,
                         suggestions = take 5 swaps,
                         current_exercises = exs\<rparr>\<rparr>)
         | (Inl e, r) \<Rightarrow> (Inl e, s)
         | (Inr rid, Inl e) \<Rightarrow> (Inl e, s))
      else (Inr response, s\<lparr>pending_swap_context := None\<rparr>))"

text \<open>Lines 474 to 546, on a cache that is not empty.\<close>

definition suggest_swaps :: "env \<Rightarrow> jval \<Rightarrow> jval \<Rightarrow> jval \<Rightarrow> template list \<Rightarrow> optimizer \<Rightarrow> (error + string) \<times> optimizer" where
  "suggest_swaps E target_routine rname exercise_to_swap_name templates s =
     (let exercise_to_swap_muscle = find_muscle templates exercise_to_swap_name;
          swaps = (if truthy_str exercise_to_swap_muscle
                   then potential_swaps templates exercise_to_swap_name exercise_to_swap_muscle
                   else []) in
      case get_chat_response E
             (Prompt (swap_prompt exercise_to_swap_name rname exercise_to_swap_muscle swaps)) s of
        (Inl e, s1) \<Rightarrow> (Inl e, s1)
      | (Inr response, s1) \<Rightarrow>
          store_pending_swap target_routine rname exercise_to_swap_name swaps response s1)"

definition exercise_swap :: "env \<Rightarrow> dict \<Rightarrow> optimizer \<Rightarrow> (error + string) \<times> optimizer" where
  "exercise_swap E context s =
     (let exercise_to_swap_name = dict_get context ''exercise_name'';
          target_routine = dict_get context ''target_routine_details'' in
      case (if truthy target_routine
            then obj_get_default target_routine ''title'' (JStr ''the routine'')
            else Inr (JStr ''the routine'')) of
        Inl e \<Rightarrow> (Inl e, s)
      | Inr rname \<Rightarrow>
          if \<not> truthy exercise_to_swap_name
          then get_chat_response E (Prompt SwapNameMissing) s
          else
            (case cached_templates s of
               None \<Rightarrow> get_chat_response E (Prompt (SwapCacheEmpty exercise_to_swap_name)) s
             | Some [] \<Rightarrow> get_chat_response E (Prompt (SwapCacheEmpty exercise_to_swap_name)) s
             | Some (t # ts) \<Rightarrow>
                 suggest_swaps E target_routine rname exercise_to_swap_name (t # ts) s))"

subsection \<open>Implement phase (intent \<open>SUGGESTION_IMPLEMENT\<close>)\<close>

text \<open>
  The loop over the stored suggestions: the first suggestion whose name is non-empty and
  occurs in the message, both lower-cased.
\<close>

fun match_suggestion :: "suggestion list \<Rightarrow> string \<Rightarrow> string option" where
  "match_suggestion [] message = None"
| "match_suggestion (g # gs) message =
     (case name g of
        None \<Rightarrow> match_suggestion gs message
      | Some sugg_title \<Rightarrow>
          if sugg_title \<noteq> [] \<and> sublist (lower sugg_title) (lower message)
          then Some sugg_title
          else match_suggestion gs message)"

text \<open>
  The choice named by a message: a stored suggestion found in it, else the stripped group of
  the choice pattern. Router and handler carry the same lines.
\<close>

definition extract_choice :: "suggestion list \<Rightarrow> string \<Rightarrow> string option" where
  "extract_choice suggs message =
     (case match_suggestion suggs message of
        Some sugg_title \<Rightarrow> Some sugg_title
      | None \<Rightarrow> map_option strip (re_search_choice message))"

text \<open>The exercise put in place of the swapped one.\<close>

definition empty_set :: jval where
  "empty_set = JObj [(''type'', JStr ''normal''), (''weight_kg'', JNull), (''reps'', JNull)]"

definition new_exercise :: "string \<Rightarrow> string \<Rightarrow> dict" where
  "new_exercise chosen_alternative_title chosen_template_id =
     [(''title'', JStr chosen_alternative_title),
      (''notes'', JNull),
      (''exercise_template_id'', JStr chosen_template_id),
      (''superset_id'', JNull),
      (''sets'', JList [empty_set, empty_set, empty_set])]"

text \<open>
  The loop over the snapshot. An entry with the stored title is replaced; any other entry
  loses its \<open>index\<close> key. An entry that is not a dictionary has no \<open>get\<close>: the loop
  raises there. The result is the updated list and \<open>swap_performed\<close>.
\<close>

fun swap_exercises :: "jval list \<Rightarrow> string \<Rightarrow> dict \<Rightarrow> jval list \<Rightarrow> bool \<Rightarrow> error + (jval list \<times> bool)" where
  "swap_exercises [] t new updated performed = Inr (updated, performed)"
| "swap_exercises (JObj exercise # rest) t new updated performed =
     (if dict_get exercise ''title'' = JStr t
      then swap_exercises rest t new (updated @ [JObj new]) True
      else swap_exercises rest t new (updated @ [JObj (dict_pop ''index'' exercise)]) performed)"
| "swap_exercises (v # rest) t new updated performed = Inl (AttributeError (type_name v) ''get'')"

text \<open>
  What the loop iterates over: a list gives its entries, a string its characters, a
  dictionary its keys; \<open>None\<close> is rejected before the loop with a \<open>ValueError\<close>, and a
  number or a truth value has no length.
\<close>

fun iter_exercises :: "jval \<Rightarrow> error + jval list" where
  "iter_exercises JNull = Inl (ValueError ''Missing exercise list from stored context.'')"
| "iter_exercises (JList xs) = Inr xs"
| "iter_exercises (JStr cs) = Inr (map (\<lambda>c. JStr [c]) cs)"
| "iter_exercises (JObj d) = Inr (map (\<lambda>kv. JStr (fst kv)) d)"
| "iter_exercises v =
     Inl (TypeError (''object of type '' @ [CHR 0x27] @ type_name v @ [CHR 0x27] @ '' has no len()''))"

text \<open>How the \<open>try\<close> block is left: by a \<open>return\<close>, at its end with the prompt, or by an exception.\<close>

datatype try_outcome = Returned string | Finished prompt | Raised error

text \<open>\<open>return await self.get_chat_response(prompt)\<close> inside the \<open>try\<close> block.\<close>

definition return_chat :: "env \<Rightarrow> prompt \<Rightarrow> optimizer \<Rightarrow> try_outcome \<times> optimizer" where
  "return_chat E p s =
     (case get_chat_response E (Prompt p) s of
        (Inl e, s1) \<Rightarrow> (Raised e, s1)
      | (Inr r, s1) \<Rightarrow> (Returned r, s1))"

definition update_payload :: "jval \<Rightarrow> jval list \<Rightarrow> dict" where
  "update_payload rname updated_exercises =
     [(''routine'', JObj [(''title'', rname), (''exercises'', JList updated_exercises)])]"

text \<open>The body of the \<open>try\<close> block.\<close>

definition swap_try :: "env \<Rightarrow> pending_swap \<Rightarrow> string \<Rightarrow> optimizer \<Rightarrow> try_outcome \<times> optimizer" where
  "swap_try E pending_context chosen_alternative_title s =
     (case cached_templates s of
        None \<Rightarrow> return_chat E (ImplementCacheEmpty chosen_alternative_title) s
      | Some [] \<Rightarrow> return_chat E (ImplementCacheEmpty chosen_alternative_title) s
      | Some (t # ts) \<Rightarrow>
          (case find (\<lambda>tpl. title tpl = Some chosen_alternative_title) (t # ts) of
             None \<Rightarrow> return_chat E (ImplementTitleNotFound chosen_alternative_title) s
           | Some chosen_template \<Rightarrow>
               (case id chosen_template of
                  None \<Rightarrow>
                    return_chat E (ImplementMissingId chosen_alternative_title)
                      (s\<lparr>pending_swap_context := None\<rparr>)
                | Some chosen_template_id \<Rightarrow>
                    if chosen_template_id = []
                    then return_chat E (ImplementMissingId chosen_alternative_title)
                           (s\<lparr>pending_swap_context := None\<rparr>)
                    else
                      (case iter_exercises (current_exercises pending_context) of
                         Inl e \<Rightarrow> (Raised e, s)
                       | Inr exercises \<Rightarrow>
                           (case swap_exercises exercises
                                   (exercise_to_swap_title pending_context)
                                   (new_exercise chosen_alternative_title chosen_template_id)
                                   [] False of
                              Inl e \<Rightarrow> (Raised e, s)
                            | Inr (updated_exercises, swap_performed) \<Rightarrow>
                                if \<not> swap_performed
                                then return_chat E
                                       (ImplementStale (exercise_to_swap_title pending_context)
                                          (routine_name pending_context))
                                       (s\<lparr>pending_swap_context := None\<rparr>)
                                else
                                  (let payload = update_payload (routine_name pending_context)
                                                   updated_exercises;
                                       s1 = s\<lparr>calls := calls s @
                                              [UpdateRoutine (routine_id pending_context) payload]\<rparr> in
                                   case update_routine E (routine_id pending_context) payload of
                                     Inr update_response \<Rightarrow>
                                       (Finished
                                          (ImplementDone (routine_name pending_context)
                                             (exercise_to_swap_title pending_context)
                                             chosen_alternative_title), s1)
                                   | Inl e \<Rightarrow> (Raised e, s1)))))))"

text \<open>
  The whole phase. The \<open>finally\<close> clause runs however the \<open>try\<close> block is left, also by
  one of its \<open>return\<close> statements, and sets the pending context to \<open>None\<close>.
\<close>

definition suggestion_implement :: "env \<Rightarrow> string \<Rightarrow> optimizer \<Rightarrow> (error + string) \<times> optimizer" where
  "suggestion_implement E message s =
     (case pending_swap_context s of
        None \<Rightarrow> get_chat_response E (Prompt NoPendingSwap) (s\<lparr>pending_swap_context := None\<rparr>)
      | Some pending_context \<Rightarrow>
          if ptype pending_context \<noteq> ''EXERCISE_SWAP''
          then get_chat_response E (Prompt NoPendingSwap) (s\<lparr>pending_swap_context := None\<rparr>)
          else
            (case extract_choice (suggestions pending_context) message of
               None \<Rightarrow> get_chat_response E (Prompt (ChoiceUnclear message)) s
             | Some chosen_alternative_title \<Rightarrow>
                 if \<not> (truthy (routine_id pending_context)
                        \<and> exercise_to_swap_title pending_context \<noteq> []
                        \<and> chosen_alternative_title \<noteq> [])
                 then get_chat_response E (Prompt LostDetails) (s\<lparr>pending_swap_context := None\<rparr>)
                 else
                   (case swap_try E pending_context chosen_alternative_title s of
                      (Returned response, s1) \<Rightarrow>
                        (Inr response, s1\<lparr>pending_swap_context := None\<rparr>)
                    | (Finished prompt, s1) \<Rightarrow>
                        get_chat_response E (Prompt prompt) (s1\<lparr>pending_swap_context := None\<rparr>)
                    | (Raised e, s1) \<Rightarrow>
                        get_chat_response E
                          (Prompt (ImplementFailed (routine_name pending_context)
                                     (exercise_to_swap_title pending_context)
                                     chosen_alternative_title))
                          (s1\<lparr>pending_swap_context := None\<rparr>))))"

subsection \<open>\<open>get_modification_response\<close>\<close>

definition get_modification_response :: "env \<Rightarrow> string \<Rightarrow> string \<Rightarrow> dict \<Rightarrow> optimizer \<Rightarrow> (error + string) \<times> optimizer" where
  "get_modification_response E message intent context s =
     (if intent = ''EXERCISE_SWAP'' then exercise_swap E context s
      else if intent = ''SUGGESTION_IMPLEMENT'' then suggestion_implement E message s
      else get_chat_response E (Prompt (Unimplemented intent message context)) s)"

section \<open>Information and analysis handlers\<close>

definition get_info_response :: "env \<Rightarrow> string \<Rightarrow> string \<Rightarrow> dict \<Rightarrow> optimizer \<Rightarrow> (error + string) \<times> optimizer" where
  "get_info_response E message intent context s =
     (case format_info_context E intent context of
        Inl e \<Rightarrow> (Inl e, s)
      | Inr prompt_context \<Rightarrow>
          get_chat_response E (Prompt (InfoPrompt prompt_context intent message)) s)"

text \<open>
  \<open>analyze_program\<close> returns a dictionary with the key \<open>error\<close>, or the program name and the
  analysis text. Every exception inside it is caught and reported under \<open>error\<close>. The
  template cache is loaded here when it is still \<open>None\<close>.
\<close>

definition analyze_program :: "env \<Rightarrow> string \<Rightarrow> optimizer \<Rightarrow> (string + (string \<times> string)) \<times> optimizer" where
  "analyze_program E user_message s =
     (let s0 = s\<lparr>calls := calls s @ [FetchProgram]\<rparr> in
      case get_current_program_details E of
        Inl e \<Rightarrow> (Inl (''Failed to analyze program: '' @ error_str e), s0)
      | Inr current_program_details \<Rightarrow>
          (let s1 = (if cached_templates s0 = None then load_templates_cache E s0 else s0);
               all_templates = (case cached_templates s1 of None \<Rightarrow> [] | Some ts \<Rightarrow> ts) in
           case program_prompt E current_program_details all_templates user_message of
             Inl error_msg \<Rightarrow> (Inl error_msg, s1)
           | Inr (program_name, p) \<Rightarrow>
               (case get_chat_response E (Prompt (ProgramAnalysisPrompt p)) s1 of
                  (Inl e, s2) \<Rightarrow> (Inl (''Failed to analyze program: '' @ error_str e), s2)
                | (Inr response_text, s2) \<Rightarrow> (Inr (program_name, response_text), s2))))"

definition get_analysis_response :: "env \<Rightarrow> string \<Rightarrow> string \<Rightarrow> dict \<Rightarrow> optimizer \<Rightarrow> (error + string) \<times> optimizer" where
  "get_analysis_response E message intent context s =
     (if intent = ''PROGRAM_ANALYSIS''
      then
        (let program_analysis_results =
               dict_get_default context ''program_analysis_results'' (JObj []) in
         if truthy program_analysis_results
         then
           (case (obj_get_default program_analysis_results ''program_name''
                    (JStr ''Unknown Program''),
                  obj_get_default program_analysis_results ''analysis''
                    (JStr ''No analysis available'')) of
              (Inr program_name, Inr analysis_summary) \<Rightarrow>
                get_chat_response E
                  (Prompt (StoredAnalysisPrompt program_name analysis_summary message)) s
            | (Inl e, r) \<Rightarrow> (Inl e, s)
            | (Inr program_name, Inl e) \<Rightarrow> (Inl e, s))
         else
           (case analyze_program E message s of
              (Inr (program_name, analysis_summary), s1) \<Rightarrow>
                (Inr (''# Analysis for: '' @ program_name
                        @ [CHR 0x5C, CHR ''n'', CHR 0x5C, CHR ''n''] @ analysis_summary), s1)
            | (Inl error_msg, s1) \<Rightarrow>
                (Inr (''I tried to analyze the program but encountered an error: ''
                        @ error_msg @ ''.''), s1)))
      else get_chat_response E (Prompt (AnalysisPrompt intent message context)) s)"

section \<open>The chat router\<close>

text \<open>
  The check for a pending swap at the start of a turn. The result is the intent and the
  context when the turn is taken as the answer to the pending proposal.
\<close>

definition resume_pending :: "string \<Rightarrow> optimizer \<Rightarrow> (string \<times> dict) option \<times> optimizer" where
  "resume_pending user_message s =
     (case pending_swap_context s of
        None \<Rightarrow> (None, s)
      | Some pending \<Rightarrow>
          if ptype pending \<noteq> ''EXERCISE_SWAP'' then (None, s)
          else
            (case extract_choice (suggestions pending) user_message of
               None \<Rightarrow> (None, s\<lparr>pending_swap_context := None\<rparr>)
             | Some chosen_alternative_title \<Rightarrow>
                 if chosen_alternative_title \<noteq> []
                 then (Some (''SUGGESTION_IMPLEMENT'',
                             [(''routine_id'', routine_id pending),
                              (''exercise_to_swap_title'', JStr (exercise_to_swap_title pending)),
                              (''routine_name'', routine_name pending),
                              (''chosen_alternative_title'', JStr chosen_alternative_title)]),
                       s)
                 else (None, s\<lparr>pending_swap_context := None\<rparr>)))"

text \<open>The normal flow: classify, gather context, drop a pending swap on an unrelated intent.\<close>

definition classify_turn :: "env \<Rightarrow> string \<Rightarrow> optimizer \<Rightarrow> (string \<times> dict) \<times> optimizer" where
  "classify_turn E user_message s =
     (let history = get_conversation_history s;
          intent = classify_intent E user_message history;
          context = get_relevant_context E intent user_message;
          s1 = s\<lparr>calls := calls s @ [Classify user_message history,
                                        ResolveContext intent user_message]\<rparr> in
      ((intent, context),
       (if intent \<noteq> ''SUGGESTION_IMPLEMENT'' \<and> pending_swap_context s1 \<noteq> None
        then s1\<lparr>pending_swap_context := None\<rparr>
        else s1)))"

text \<open>Lines 32 to 84 of the endpoint: resume the pending swap, or classify.\<close>

definition resume_or_classify :: "env \<Rightarrow> string \<Rightarrow> optimizer \<Rightarrow> (string \<times> dict) \<times> optimizer" where
  "resume_or_classify E user_message s =
     (case resume_pending user_message s of
        (Some ic, s1) \<Rightarrow> (ic, s1)
      | (None, s1) \<Rightarrow> classify_turn E user_message s1)"

text \<open>Routing by intent; the result is the response text and the intent reported.\<close>

definition route :: "env \<Rightarrow> string \<Rightarrow> string \<Rightarrow> dict \<Rightarrow> optimizer \<Rightarrow> (error + (string \<times> string)) \<times> optimizer" where
  "route E user_message intent context s =
     (let reported = (\<lambda>r. case r of
                            (Inl e, s1) \<Rightarrow> (Inl e, s1)
                          | (Inr response_content, s1) \<Rightarrow> (Inr (response_content, intent), s1)) in
      if intent = ''SUGGESTION_IMPLEMENT''
      then reported (get_modification_response E user_message intent context s)
      else if intent = ''GREETING''
      then (Inr (''Hello! How can I help you with your workouts today?'', intent), s)
      else if intent = ''UNKNOWN''
      then (Inr (''Sorry, I'' @ [CHR 0x27] @ ''m not sure how to help with that. ''
                   @ ''Can you please rephrase or ask about your workouts?'', intent), s)
      else if intent \<in> set [''WORKOUT_INFO'', ''EXERCISE_INFO'', ''ROUTINE_INFO'',
                              ''PROGRAM_INFO'', ''GENERAL_INFO'']
      then reported (get_info_response E user_message intent context s)
      else if intent \<in> set [''WORKOUT_ANALYSIS'', ''PROGRAM_ANALYSIS'', ''EXERCISE_ANALYSIS'',
                              ''COMPARATIVE_ANALYSIS'']
      then reported (get_analysis_response E user_message intent context s)
      else if intent \<in> set [''EXERCISE_SWAP'', ''PROGRAM_CREATE'', ''ROUTINE_UPDATE'',
                              ''SUGGESTION_IMPLEMENT'']
      then reported (get_modification_response E user_message intent context s)
      else (Inr (''Sorry, I encountered an unexpected situation handling your request.'',
                 ''UNKNOWN''), s))"

text \<open>Lines 130 to 135: the history update at the end of a handled turn.\<close>

definition record_turn :: "string \<Rightarrow> string \<Rightarrow> optimizer \<Rightarrow> optimizer" where
  "record_turn user_message response_content s =
     (let s1 = (if user_message \<noteq> []
                then s\<lparr>conversation_history :=
                         conversation_history s @ [(User, Text user_message)]\<rparr>
                else s) in
      if response_content \<noteq> []
      then s1\<lparr>conversation_history :=
                conversation_history s1 @ [(Assistant, Text response_content)]\<rparr>
      else s1)"

text \<open>
  \<open>workout_chat\<close>. Any exception becomes an \<open>HTTPException\<close> with status 500; what the turn
  changed before the exception stays changed.
\<close>

definition workout_chat :: "env \<Rightarrow> string \<Rightarrow> optimizer \<Rightarrow> (http_exception + (string \<times> string)) \<times> optimizer" where
  "workout_chat E user_message s =
     (case resume_or_classify E user_message s of
        ((intent, context), s1) \<Rightarrow>
          (case route E user_message intent context s1 of
             (Inl e, s2) \<Rightarrow>
               (Inl (HTTPException 500 (''An internal error occurred: '' @ error_str e)), s2)
           | (Inr (response_content, reported_intent), s2) \<Rightarrow>
               (Inr (response_content, reported_intent),
                record_turn user_message response_content s2)))"

section \<open>The application: one optimizer for every request\<close>




datatype request =
    PostChat string
  | GetHistory
  | DeleteHistory
  | PostSave string
  | PostLoad string

datatype reply =
    ChatReply "http_exception + (string \<times> string)"
  | HistoryReply "turn list"
  | StatusReply "http_exception + (string \<times> string) list"



section \<open>Observations on the call log\<close>

text \<open>The routine writes among the outside calls, in order.\<close>

fun write_of :: "event \<Rightarrow> (jval \<times> dict) option" where
  "write_of (UpdateRoutine rid payload) = Some (rid, payload)"
| "write_of ev = None"

definition routine_writes :: "optimizer \<Rightarrow> (jval \<times> dict) list" where
  "routine_writes s = List.map_filter write_of (calls s)"

text \<open>The messages handed to the intent classifier, in order.\<close>

fun classified_of :: "event \<Rightarrow> string option" where
  "classified_of (Classify m h) = Some m"
| "classified_of ev = None"

definition classifier_calls :: "optimizer \<Rightarrow> string list" where
  "classifier_calls s = List.map_filter classified_of (calls s)"

text \<open>
  What the completions made through \<open>get_chat_response\<close> appended to the history: for each
  one that returned, the message sent last and the reply.
\<close>

fun completion_turns :: "event \<Rightarrow> turn list" where
  "completion_turns (Completion messages (Some r)) = [last messages, (Assistant, Text r)]"
| "completion_turns ev = []"

section \<open>Example data\<close>

definition bench_press :: template where
  "bench_press = \<lparr>title = Some ''Bench Press'', id = Some ''T1'',
                   primary_muscle_group = Some ''Chest''\<rparr>"

definition incline_press :: template where
  "incline_press = \<lparr>title = Some ''Incline Press'', id = Some ''T2'',
                     primary_muscle_group = Some ''Chest''\<rparr>"

definition squat :: template where
  "squat = \<lparr>title = Some ''Squat'', id = Some ''T3'', primary_muscle_group = Some ''Legs''\<rparr>"

definition example_cache :: "template list" where
  "example_cache = [bench_press, squat, incline_press]"

definition example_exercises :: "jval list" where
  "example_exercises =
     [JObj [(''index'', JInt 0), (''title'', JStr ''Bench Press''),
            (''exercise_template_id'', JStr ''T1''), (''sets'', JList [])],
      JObj [(''index'', JInt 1), (''title'', JStr ''Squat''),
            (''exercise_template_id'', JStr ''T3''), (''sets'', JList [])]]"

definition example_routine :: jval where
  "example_routine =
     JObj [(''id'', JStr ''R1''), (''title'', JStr ''Push Day''),
           (''exercises'', JList example_exercises)]"

definition example_pending :: pending_swap where
  "example_pending =
     \<lparr>ptype = ''EXERCISE_SWAP'', routine_id = JStr ''R1'', routine_name = JStr ''Push Day'',
      exercise_to_swap_title = ''Bench Press'',
      suggestions = [\<lparr>name = Some ''Incline Press'', sugg_id = Some ''T2'',
                      muscles = Some ''Chest''\<rparr>],
      current_exercises = JList example_exercises\<rparr>"

text \<open>Collaborators that all answer: the completion says \<open>ok\<close>, the classifier \<open>GREETING\<close>.\<close>

definition example_env :: env where
  "example_env =
     \<lparr>complete = (\<lambda>messages. Inr ''ok''),
      update_routine = (\<lambda>rid payload. Inr (JObj [])),
      get_all_exercise_templates = Inr example_cache,
      classify_intent = (\<lambda>message history. ''GREETING''),
      get_relevant_context = (\<lambda>intent message. []),
      format_info_context = (\<lambda>intent context. Inr ''No specific context was readily available.''),
      get_current_program_details = Inl (CollaboratorError ''503 Server Error''),
      program_prompt = (\<lambda>details templates message. Inl ''Could not retrieve current program data.'')\<rparr>"

definition fresh_optimizer :: optimizer where
  "fresh_optimizer =
     \<lparr>conversation_history = [], pending_swap_context = None, cached_templates = None,
      calls = []\<rparr>"

definition loaded_optimizer :: optimizer where
  "loaded_optimizer = fresh_optimizer\<lparr>cached_templates := Some example_cache\<rparr>"

definition pending_optimizer :: optimizer where
  "pending_optimizer = loaded_optimizer\<lparr>pending_swap_context := Some example_pending\<rparr>"

text \<open>A pending swap whose exercise is not in its snapshot.\<close>

definition stale_pending :: pending_swap where
  "stale_pending = example_pending\<lparr>exercise_to_swap_title := ''Deadlift''\<rparr>"

definition stale_optimizer :: optimizer where
  "stale_optimizer = loaded_optimizer\<lparr>pending_swap_context := Some stale_pending\<rparr>"

text \<open>Collaborators whose template fetch raises.\<close>

definition failing_env :: env where
  "failing_env =
     example_env\<lparr>get_all_exercise_templates := Inl (CollaboratorError ''503 Server Error'')\<rparr>"

text \<open>A message that names no choice.\<close>

definition unclear_message :: string where
  "unclear_message = ''hmm, not sure''"

text \<open>An exercise name with letters above 0x7F, and a message that asks for it.\<close>

definition epaule_jete :: string where
  "epaule_jete = [CHR 0xE9] @ ''paul'' @ [CHR 0xE9] @ '' jet'' @ [CHR 0xE9]"

definition epaule_message :: string where
  "epaule_message = ''Use '' @ epaule_jete @ ''.''"



section \<open>Verified properties\<close>

subsection \<open>What the string functions compute\<close>

text \<open>
  \<open>lower\<close> works character by character: a capital of the table becomes the letter at the
  same place of the other table, and every other character stays.
\<close>

lemma lower_char_capitals: "map lower_char upper_letters = lower_letters"
  by (simp add: lower_char_def upper_letters_def lower_letters_def)

lemma lower_char_other: "c \<notin> set upper_letters \<Longrightarrow> lower_char c = c"
proof -
  assume "c \<notin> set upper_letters"
  moreover have "length upper_letters = length lower_letters"
    by (simp add: upper_letters_def lower_letters_def)
  ultimately have "map_of (zip upper_letters lower_letters) c = None"
    by (simp add: map_of_zip_is_None)
  then show ?thesis
    by (simp add: lower_char_def)
qed

lemma length_lower: "length (lower s) = length s"
  by (simp add: lower_def)

lemma lower_append: "lower (s @ t) = lower s @ lower t"
  by (simp add: lower_def)

text \<open>
  \<open>t.lower() in m.lower()\<close>: some stretch of the message is the title, up to the case of
  the letters.
\<close>

lemma sublist_lower_iff:
  "sublist (lower t) (lower m) \<longleftrightarrow> (\<exists>pre mid post. m = pre @ mid @ post \<and> lower mid = lower t)"
proof
  assume "sublist (lower t) (lower m)"
  then obtain ps ss where "map lower_char m = ps @ map lower_char t @ ss"
    by (auto simp: sublist_def lower_def)
  then obtain pre r where r: "m = pre @ r" "map lower_char t @ ss = map lower_char r"
    unfolding map_eq_append_conv by blast
  from r(2) obtain mid post where "r = mid @ post" "map lower_char t = map lower_char mid"
    unfolding append_eq_map_conv by blast
  with r(1) show "\<exists>pre mid post. m = pre @ mid @ post \<and> lower mid = lower t"
    by (auto simp: lower_def)
next
  assume "\<exists>pre mid post. m = pre @ mid @ post \<and> lower mid = lower t"
  then obtain pre mid post where "m = pre @ mid @ post" "lower mid = lower t"
    by blast
  then have "lower m = lower pre @ lower t @ lower post"
    by (simp add: lower_append)
  then show "sublist (lower t) (lower m)"
    by (auto simp: sublist_def)
qed

text \<open>
  \<open>strip\<close> removes white space at both ends and nothing else: what is left neither starts
  nor ends with white space, and nothing is left exactly of a string of white space.
\<close>

lemma strip_decomposition:
  "\<exists>pre post. s = pre @ strip s @ post
      \<and> (\<forall>c \<in> set pre. is_space c) \<and> (\<forall>c \<in> set post. is_space c)"
proof -
  let ?r = "dropWhile is_space s"
  have a: "s = takeWhile is_space s @ ?r"
    by simp
  have "rev ?r = takeWhile is_space (rev ?r) @ dropWhile is_space (rev ?r)"
    by simp
  then have "?r = rev (dropWhile is_space (rev ?r)) @ rev (takeWhile is_space (rev ?r))"
    by (metis rev_append rev_rev_ident)
  then have b: "?r = strip s @ rev (takeWhile is_space (rev ?r))"
    by (simp add: strip_def)
  have c: "\<forall>c \<in> set (takeWhile is_space s). is_space c"
    by (auto dest: set_takeWhileD)
  have d: "\<forall>c \<in> set (rev (takeWhile is_space (rev ?r))). is_space c"
    by (auto dest: set_takeWhileD)
  from a b have "s = takeWhile is_space s @ strip s @ rev (takeWhile is_space (rev ?r))"
    by metis
  with c d show ?thesis
    by blast
qed

lemma strip_ends:
  assumes "strip s \<noteq> []"
  shows "\<not> is_space (hd (strip s)) \<and> \<not> is_space (last (strip s))"
proof -
  let ?r = "dropWhile is_space s"
  let ?q = "dropWhile is_space (rev ?r)"
  have q: "?q \<noteq> []"
    using assms by (simp add: strip_def)
  then have l: "\<not> is_space (hd ?q)"
    by (rule hd_dropWhile)
  have r: "?r \<noteq> []"
  proof
    assume "?r = []"
    then have "?q = []"
      by (simp only: rev.simps dropWhile.simps)
    with q show False ..
  qed
  then have h: "\<not> is_space (hd ?r)"
    by (rule hd_dropWhile)
  have "strip s = rev ?q"
    by (simp add: strip_def)
  then have last: "last (strip s) = hd ?q"
    using q by (simp add: last_rev)
  obtain ws where "?r = strip s @ ws"
    by (metis append_take_drop_id rev_append rev_rev_ident strip_def takeWhile_dropWhile_id)
  then have "hd (strip s) = hd ?r"
    using assms by (metis hd_append2)
  with h l last show ?thesis
    by simp
qed

lemma strip_empty_iff: "strip s = [] \<longleftrightarrow> (\<forall>c \<in> set s. is_space c)"
proof
  assume e: "strip s = []"
  let ?r = "dropWhile is_space s"
  have "?r = []"
  proof (rule ccontr)
    assume ne: "?r \<noteq> []"
    then have "\<not> is_space (hd ?r)"
      by (rule hd_dropWhile)
    moreover have "\<forall>x \<in> set ?r. is_space x"
      using e by (simp add: strip_def)
    moreover have "hd ?r \<in> set ?r"
      using ne by (rule hd_in_set)
    ultimately show False
      by blast
  qed
  then show "\<forall>c \<in> set s. is_space c"
    by simp
next
  assume "\<forall>c \<in> set s. is_space c"
  then have "dropWhile is_space s = []"
    by simp
  then show "strip s = []"
    by (simp only: strip_def rev.simps dropWhile.simps)
qed

text \<open>
  What follows the verb, \<open>\s+([\w\s\(\)-]+)\<close>: there is a match exactly when white space
  is followed by a character of the class (white space is in the class). The group found is
  not empty, is made of characters of the class, ends where the class ends, and comes
  after the longest run of white space that leaves it a character.
\<close>

lemma butlast_nonempty: "2 \<le> length xs \<Longrightarrow> xs \<noteq> [] \<and> butlast xs \<noteq> []"
  by (cases xs; cases "tl xs") auto

lemma in_class_space: "is_space c \<Longrightarrow> in_class c"
  by (simp add: in_class_def)

lemma match_tail_None_iff:
  "match_tail r = None \<longleftrightarrow>
     \<not> (\<exists>ws c rest. r = ws @ c # rest \<and> ws \<noteq> [] \<and> (\<forall>x \<in> set ws. is_space x) \<and> in_class c)"
proof
  assume n: "match_tail r = None"
  show "\<not> (\<exists>ws c rest. r = ws @ c # rest \<and> ws \<noteq> [] \<and> (\<forall>x \<in> set ws. is_space x) \<and> in_class c)"
  proof
    assume "\<exists>ws c rest. r = ws @ c # rest \<and> ws \<noteq> [] \<and> (\<forall>x \<in> set ws. is_space x) \<and> in_class c"
    then obtain ws c rest where r: "r = ws @ c # rest" "ws \<noteq> []" "\<forall>x \<in> set ws. is_space x"
        "in_class c"
      by blast
    show False
    proof (cases "is_space c")
      case True
      then have "takeWhile is_space r = ws @ c # takeWhile is_space rest"
        using r by (simp add: takeWhile_append2)
      then have "2 \<le> length (takeWhile is_space r)"
        using r(2) by (cases ws) auto
      then show False
        using n by (auto simp: match_tail_def Let_def split: if_splits)
    next
      case False
      then have "takeWhile is_space r = ws" "dropWhile is_space r = c # rest"
        using r by (simp_all add: takeWhile_append2 dropWhile_append2)
      then show False
        using n r by (auto simp: match_tail_def Let_def split: if_splits)
    qed
  qed
next
  assume a: "\<not> (\<exists>ws c rest. r = ws @ c # rest \<and> ws \<noteq> [] \<and> (\<forall>x \<in> set ws. is_space x) \<and> in_class c)"
  show "match_tail r = None"
  proof (rule ccontr)
    assume "match_tail r \<noteq> None"
    then consider
        (direct) "takeWhile is_space r \<noteq> []" "dropWhile is_space r \<noteq> []"
          "in_class (hd (dropWhile is_space r))"
      | (given_back) "2 \<le> length (takeWhile is_space r)"
      by (auto simp: match_tail_def Let_def split: if_splits)
    then show False
    proof cases
      case direct
      have "r = takeWhile is_space r @ hd (dropWhile is_space r) # tl (dropWhile is_space r)"
        using direct(2) by simp
      moreover have "\<forall>x \<in> set (takeWhile is_space r). is_space x"
        by (auto dest: set_takeWhileD)
      ultimately show False
        using a direct by blast
    next
      case given_back
      let ?ws = "takeWhile is_space r"
      have ne: "?ws \<noteq> []" "butlast ?ws \<noteq> []"
        using given_back by (simp_all add: butlast_nonempty)
      have sp: "\<forall>x \<in> set ?ws. is_space x"
        by (auto dest: set_takeWhileD)
      have "r = ?ws @ dropWhile is_space r"
        by simp
      also have "?ws = butlast ?ws @ [last ?ws]"
        using ne by simp
      finally have "r = butlast ?ws @ last ?ws # dropWhile is_space r"
        by simp
      moreover have "\<forall>x \<in> set (butlast ?ws). is_space x"
        using sp by (auto dest: in_set_butlastD)
      moreover have "in_class (last ?ws)"
        using sp ne by (simp add: in_class_space)
      ultimately show False
        using a ne by blast
    qed
  qed
qed

lemma match_tail_SomeD:
  assumes "match_tail r = Some g"
  shows "\<exists>ws post. r = ws @ g @ post
      \<and> ws \<noteq> [] \<and> (\<forall>x \<in> set ws. is_space x)
      \<and> g \<noteq> [] \<and> (\<forall>x \<in> set g. in_class x)
      \<and> (post = [] \<or> \<not> in_class (hd post))
      \<and> (is_space (hd g) \<longrightarrow> g = [hd g])"
proof -
  let ?ws = "takeWhile is_space r"
  let ?rest = "dropWhile is_space r"
  have sp: "\<forall>x \<in> set ?ws. is_space x"
    by (auto dest: set_takeWhileD)
  from assms consider
      (direct) "?ws \<noteq> []" "?rest \<noteq> []" "in_class (hd ?rest)" "g = takeWhile in_class ?rest"
    | (given_back) "2 \<le> length ?ws" "?rest = [] \<or> \<not> in_class (hd ?rest)" "g = [last ?ws]"
    by (auto simp: match_tail_def Let_def split: if_splits)
  then show ?thesis
  proof cases
    case direct
    let ?post = "dropWhile in_class ?rest"
    have "r = ?ws @ g @ ?post"
      by (simp add: direct(4))
    moreover have "g \<noteq> []"
      using direct by (cases ?rest) auto
    moreover have "\<forall>x \<in> set g. in_class x"
      by (auto simp: direct(4) dest: set_takeWhileD)
    moreover have "?post = [] \<or> \<not> in_class (hd ?post)"
      using hd_dropWhile by blast
    moreover have "\<not> is_space (hd ?rest)"
      using direct(2) by (rule hd_dropWhile)
    then have "\<not> is_space (hd g)"
      using direct by (cases ?rest) auto
    ultimately show ?thesis
      using direct(1) sp by blast
  next
    case given_back
    have ne: "?ws \<noteq> []" "butlast ?ws \<noteq> []"
      using given_back(1) by (simp_all add: butlast_nonempty)
    have "r = ?ws @ ?rest"
      by simp
    also have "?ws = butlast ?ws @ [last ?ws]"
      using ne by simp
    finally have "r = butlast ?ws @ g @ ?rest"
      by (simp add: given_back(3))
    moreover have "\<forall>x \<in> set (butlast ?ws). is_space x"
      using sp by (auto dest: in_set_butlastD)
    moreover have "\<forall>x \<in> set g. in_class x"
      using sp ne by (simp add: given_back(3) in_class_space)
    ultimately show ?thesis
      using ne(2) given_back(2,3) by (intro exI[of _ "butlast ?ws"] exI[of _ ?rest]) simp
  qed
qed

text \<open>
  The whole pattern: \<open>re.search\<close> finds a match exactly when the message has, somewhere, one
  of the five verbs in any case, then white space, then a character of the class; the group
  is a stretch of the message after such a verb and its white space.
\<close>

lemma match_verbs_None_iff:
  "match_verbs vs s = None \<longleftrightarrow>
     \<not> (\<exists>v \<in> set vs. lower (take (length v) s) = v \<and> match_tail (drop (length v) s) \<noteq> None)"
  by (induction vs) (auto split: option.splits)

lemma match_verbs_SomeD:
  "match_verbs vs s = Some g \<Longrightarrow>
     \<exists>v \<in> set vs. lower (take (length v) s) = v \<and> match_tail (drop (length v) s) = Some g"
  by (induction vs) (auto split: option.splits if_splits)

lemma re_search_choice_None_iff_suffix:
  "re_search_choice s = None \<longleftrightarrow>
     (\<forall>pre suf. s = pre @ suf \<longrightarrow> match_verbs choice_verbs suf = None)"
proof (induction s)
  case Nil
  then show ?case by simp
next
  case (Cons c cs)
  show ?case
  proof
    assume n: "re_search_choice (c # cs) = None"
    then have h: "match_verbs choice_verbs (c # cs) = None" "re_search_choice cs = None"
      by (auto split: option.splits)
    show "\<forall>pre suf. c # cs = pre @ suf \<longrightarrow> match_verbs choice_verbs suf = None"
    proof (intro allI impI)
      fix pre suf
      assume e: "c # cs = pre @ suf"
      show "match_verbs choice_verbs suf = None"
      proof (cases pre)
        case Nil
        then show ?thesis using e h(1) by simp
      next
        case (Cons a pre')
        then have "cs = pre' @ suf" using e by simp
        then show ?thesis using h(2) Cons.IH by blast
      qed
    qed
  next
    assume a: "\<forall>pre suf. c # cs = pre @ suf \<longrightarrow> match_verbs choice_verbs suf = None"
    then have "match_verbs choice_verbs (c # cs) = None"
      by (metis append_Nil)
    moreover have "\<forall>pre suf. cs = pre @ suf \<longrightarrow> match_verbs choice_verbs suf = None"
      using a by (metis append_Cons)
    then have "re_search_choice cs = None"
      using Cons.IH by blast
    ultimately show "re_search_choice (c # cs) = None"
      by simp
  qed
qed

lemma re_search_choice_Some_suffix:
  "re_search_choice s = Some g \<Longrightarrow>
     \<exists>pre suf. s = pre @ suf \<and> match_verbs choice_verbs suf = Some g
        \<and> (\<forall>pre' suf'. s = pre' @ suf' \<and> length pre' < length pre \<longrightarrow>
              match_verbs choice_verbs suf' = None)"
proof (induction s)
  case Nil
  then show ?case by simp
next
  case (Cons c cs)
  show ?case
  proof (cases "match_verbs choice_verbs (c # cs)")
    case (Some g')
    then have "match_verbs choice_verbs (c # cs) = Some g"
      using Cons.prems by simp
    then show ?thesis
      by (intro exI[of _ "[]"] exI[of _ "c # cs"]) simp
  next
    case None
    then have "re_search_choice cs = Some g"
      using Cons.prems by simp
    then obtain pre suf where p: "cs = pre @ suf" "match_verbs choice_verbs suf = Some g"
      "\<forall>pre' suf'. cs = pre' @ suf' \<and> length pre' < length pre \<longrightarrow>
              match_verbs choice_verbs suf' = None"
      using Cons.IH by blast
    have "match_verbs choice_verbs suf' = None"
      if "c # cs = pre' @ suf'" "length pre' < length (c # pre)" for pre' suf'
    proof (cases pre')
      case Nil
      then show ?thesis using that None by simp
    next
      case (Cons a q)
      then have "cs = q @ suf'" "length q < length pre"
        using that by simp_all
      then show ?thesis using p(3) by blast
    qed
    then show ?thesis
      using p(1,2) by (intro exI[of _ "c # pre"] exI[of _ suf]) simp
  qed
qed

lemma re_search_choice_None_iff:
  "re_search_choice s = None \<longleftrightarrow>
     \<not> (\<exists>pre v ws c post. s = pre @ v @ ws @ c # post \<and> lower v \<in> set choice_verbs
          \<and> ws \<noteq> [] \<and> (\<forall>x \<in> set ws. is_space x) \<and> in_class c)"
proof
  assume n: "re_search_choice s = None"
  show "\<not> (\<exists>pre v ws c post. s = pre @ v @ ws @ c # post \<and> lower v \<in> set choice_verbs
          \<and> ws \<noteq> [] \<and> (\<forall>x \<in> set ws. is_space x) \<and> in_class c)"
  proof
    assume "\<exists>pre v ws c post. s = pre @ v @ ws @ c # post \<and> lower v \<in> set choice_verbs
          \<and> ws \<noteq> [] \<and> (\<forall>x \<in> set ws. is_space x) \<and> in_class c"
    then obtain pre v ws c post where m: "s = pre @ v @ ws @ c # post"
        "lower v \<in> set choice_verbs" "ws \<noteq> []" "\<forall>x \<in> set ws. is_space x" "in_class c"
      by blast
    let ?suf = "v @ ws @ c # post"
    have len: "length (lower v) = length v"
      by (rule length_lower)
    have "match_verbs choice_verbs ?suf = None"
      using n m(1) by (simp add: re_search_choice_None_iff_suffix)
    then have "\<not> (lower (take (length (lower v)) ?suf) = lower v
                  \<and> match_tail (drop (length (lower v)) ?suf) \<noteq> None)"
      using m(2) by (auto simp: match_verbs_None_iff)
    then have "match_tail (ws @ c # post) = None"
      by (simp add: len)
    then show False
      using m(3-5) by (simp add: match_tail_None_iff) blast
  qed
next
  assume a: "\<not> (\<exists>pre v ws c post. s = pre @ v @ ws @ c # post \<and> lower v \<in> set choice_verbs
          \<and> ws \<noteq> [] \<and> (\<forall>x \<in> set ws. is_space x) \<and> in_class c)"
  show "re_search_choice s = None"
  proof (rule ccontr)
    assume "re_search_choice s \<noteq> None"
    then obtain pre suf where p: "s = pre @ suf" "match_verbs choice_verbs suf \<noteq> None"
      by (auto simp: re_search_choice_None_iff_suffix)
    then obtain v where v: "v \<in> set choice_verbs" "lower (take (length v) suf) = v"
        "match_tail (drop (length v) suf) \<noteq> None"
      by (auto simp: match_verbs_None_iff)
    then obtain ws c rest where t: "drop (length v) suf = ws @ c # rest" "ws \<noteq> []"
        "\<forall>x \<in> set ws. is_space x" "in_class c"
      by (auto simp: match_tail_None_iff)
    have "suf = take (length v) suf @ drop (length v) suf"
      by simp
    then have "s = pre @ take (length v) suf @ ws @ c # rest"
      using p(1) t(1) by simp
    then show False
      using a v(1,2) t(2-4) by metis
  qed
qed

lemma re_search_choice_SomeD:
  assumes "re_search_choice s = Some g"
  shows "\<exists>pre v ws post. s = pre @ v @ ws @ g @ post \<and> lower v \<in> set choice_verbs
      \<and> ws \<noteq> [] \<and> (\<forall>x \<in> set ws. is_space x)
      \<and> g \<noteq> [] \<and> (\<forall>x \<in> set g. in_class x)
      \<and> (post = [] \<or> \<not> in_class (hd post))
      \<and> (is_space (hd g) \<longrightarrow> g = [hd g])"
proof -
  from re_search_choice_Some_suffix[OF assms]
  obtain pre suf where p: "s = pre @ suf" "match_verbs choice_verbs suf = Some g"
    by blast
  from match_verbs_SomeD[OF p(2)]
  obtain v where v: "v \<in> set choice_verbs" "lower (take (length v) suf) = v"
      "match_tail (drop (length v) suf) = Some g"
    by blast
  from match_tail_SomeD[OF v(3)]
  obtain ws post where t: "drop (length v) suf = ws @ g @ post"
      "ws \<noteq> []" "\<forall>x \<in> set ws. is_space x" "g \<noteq> []" "\<forall>x \<in> set g. in_class x"
      "post = [] \<or> \<not> in_class (hd post)" "is_space (hd g) \<longrightarrow> g = [hd g]"
    by blast
  have "suf = take (length v) suf @ drop (length v) suf"
    by simp
  then have "s = pre @ take (length v) suf @ ws @ g @ post"
    using p(1) t(1) by simp
  then show ?thesis
    using v(1,2) t(2-7) by (intro exI[of _ pre] exI[of _ "take (length v) suf"]
        exI[of _ ws] exI[of _ post]) simp
qed

text \<open>The functions on some strings.\<close>

lemma lower_examples:
  "lower ''INCLINE Press (v2)'' = ''incline press (v2)''
   \<and> lower [CHR 0xC9, CHR 0xD7, CHR 0xDE, CHR 0xDF, CHR 0xE9] = [CHR 0xE9, CHR 0xD7, CHR 0xFE, CHR 0xDF, CHR 0xE9]"
  by code_simp

lemma strip_examples:
  "strip ''  Hack Squat  '' = ''Hack Squat''
   \<and> strip ([CHR 0xA0, CHR 0x09] @ ''a b'' @ [CHR 0x0A, CHR 0x85]) = ''a b''
   \<and> strip ''   '' = ''''
   \<and> strip ''_x_'' = ''_x_''"
  by code_simp

lemma re_search_choice_examples:
  "re_search_choice ''lets go with Hack Squat, please'' = Some ''Hack Squat''
   \<and> re_search_choice ''I CHOOSE   (Cable) Fly-2 now! or with that'' = Some ''(Cable) Fly-2 now''
   \<and> re_search_choice ''select  the first  '' = Some ''the first  ''
   \<and> re_search_choice ''use  !'' = Some '' ''
   \<and> re_search_choice ''use !'' = None
   \<and> re_search_choice ''use'' = None
   \<and> re_search_choice ''useful one'' = None
   \<and> re_search_choice ''because it is fine'' = Some ''it is fine''
   \<and> re_search_choice ''without a doubt'' = None
   \<and> re_search_choice ''I would go   with the (Hack) squat-machine  ,thanks''
        = Some ''the (Hack) squat-machine  ''
   \<and> re_search_choice (''choose'' @ [CHR 0xA0] @ ''Face Pull'') = Some ''Face Pull''
   \<and> re_search_choice (''use '' @ [CHR 0xE9] @ ''paul'' @ [CHR 0xE9] @ '' jet'' @ [CHR 0xE9] @ ''.'')
        = Some ([CHR 0xE9] @ ''paul'' @ [CHR 0xE9] @ '' jet'' @ [CHR 0xE9])"
  by code_simp

subsection \<open>History export and import\<close>

lemma save_attribute_missing:
  "lookup_attribute ''save_conversation_history'' = Inl (AttributeError ''AIWorkoutOptimizer'' ''save_conversation_history'')"
  by (simp add: lookup_attribute_def AIWorkoutOptimizer_attributes_def)

lemma load_attribute_missing:
  "lookup_attribute ''load_conversation_history'' = Inl (AttributeError ''AIWorkoutOptimizer'' ''load_conversation_history'')"
  by (simp add: lookup_attribute_def AIWorkoutOptimizer_attributes_def)

text \<open>
  Claim C7. The spec says that exporting the history to a file and importing it back are
  supported. The router calls two methods that the optimizer class does not define, so for
  every file path and every state both endpoints answer with status 500 and the history is
  as it was: nothing is exported and nothing is restored.
\<close>

theorem save_and_load_always_fail:
  "(\<exists>d. save_chat_history filepath s = (Inl (HTTPException 500 d), s))
   \<and> (\<exists>d. load_chat_history filepath s = (Inl (HTTPException 500 d), s))"
  by (simp add: save_chat_history_def load_chat_history_def
      save_attribute_missing load_attribute_missing)

subsection \<open>Effects of a completion call\<close>

lemma gcr_pending [simp]:
  "pending_swap_context (snd (get_chat_response E p s)) = pending_swap_context s"
  by (simp add: get_chat_response_def Let_def split: sum.splits)

lemma gcr_cache [simp]:
  "cached_templates (snd (get_chat_response E p s)) = cached_templates s"
  by (simp add: get_chat_response_def Let_def split: sum.splits)

lemma map_filter_append:
  "List.map_filter f (xs @ ys) = List.map_filter f xs @ List.map_filter f ys"
  by (simp add: List.map_filter_def)

lemma gcr_writes [simp]:
  "routine_writes (snd (get_chat_response E p s)) = routine_writes s"
  by (simp add: get_chat_response_def Let_def routine_writes_def map_filter_append
      List.map_filter_def split: sum.splits)

lemma writes_pending_update [simp]:
  "routine_writes (s\<lparr>pending_swap_context := v\<rparr>) = routine_writes s"
  by (simp add: routine_writes_def)

lemma return_chat_pending [simp]:
  "pending_swap_context (snd (return_chat E p s)) = pending_swap_context s"
  by (cases "get_chat_response E (Prompt p) s"; cases "fst (get_chat_response E (Prompt p) s)")
    (use gcr_pending[of E "Prompt p" s] in \<open>auto simp del: gcr_pending simp: return_chat_def\<close>)

lemma return_chat_writes [simp]:
  "routine_writes (snd (return_chat E p s)) = routine_writes s"
  by (cases "get_chat_response E (Prompt p) s"; cases "fst (get_chat_response E (Prompt p) s)")
    (use gcr_writes[of E "Prompt p" s] in \<open>auto simp del: gcr_writes simp: return_chat_def\<close>)

lemma return_chat_cache [simp]:
  "cached_templates (snd (return_chat E p s)) = cached_templates s"
  by (cases "get_chat_response E (Prompt p) s"; cases "fst (get_chat_response E (Prompt p) s)")
    (use gcr_cache[of E "Prompt p" s] in \<open>auto simp del: gcr_cache simp: return_chat_def\<close>)

subsection \<open>The implement phase\<close>

text \<open>The loop over the snapshot, on a list of dictionaries.\<close>

lemma swap_exercises_dicts:
  "swap_exercises (map JObj ds) t new updated performed =
     Inr (updated @ map (\<lambda>d. if dict_get d ''title'' = JStr t then JObj new
                               else JObj (dict_pop ''index'' d)) ds,
          performed \<or> (\<exists>d \<in> set ds. dict_get d ''title'' = JStr t))"
  by (induction ds arbitrary: updated performed) auto

lemma swap_exercises_performed:
  "swap_exercises xs t new updated performed = Inr (updated', performed') \<Longrightarrow>
   performed' = (performed \<or> (\<exists>d. JObj d \<in> set xs \<and> dict_get d ''title'' = JStr t))"
proof (induction xs t new updated performed rule: swap_exercises.induct)
  case (1 t new updated performed)
  then show ?case by simp
next
  case (2 exercise rest t new updated performed)
  then show ?case by (auto split: if_splits)
qed simp_all

lemma swap_try_stale_no_write:
  assumes "current_exercises pc = JList xs"
    and "\<forall>d. JObj d \<in> set xs \<longrightarrow> dict_get d ''title'' \<noteq> JStr (exercise_to_swap_title pc)"
  shows "routine_writes (snd (swap_try E pc chosen s)) = routine_writes s"
  using assms
  by (auto simp: swap_try_def Let_def split: option.splits list.splits sum.splits prod.splits
      dest!: swap_exercises_performed)


lemma clear_pending_idem:
  "pending_swap_context s = None \<Longrightarrow> s\<lparr>pending_swap_context := None\<rparr> = s"
  by simp

lemma swap_try_returns_cache_empty:
  assumes "cached_templates s = None \<or> cached_templates s = Some []"
  shows "swap_try E pc chosen s = return_chat E (ImplementCacheEmpty chosen) s"
  using assms by (auto simp: swap_try_def)

lemma swap_try_returns_title_not_found:
  assumes "cached_templates s = Some ts" "ts \<noteq> []"
    "find (\<lambda>t. title t = Some chosen) ts = None"
  shows "swap_try E pc chosen s = return_chat E (ImplementTitleNotFound chosen) s"
  using assms by (cases ts) (auto simp: swap_try_def)

lemma implement_passes_validation:
  assumes "pending_swap_context s = Some pc" "ptype pc = ''EXERCISE_SWAP''"
    "extract_choice (suggestions pc) message = Some chosen"
    "truthy (routine_id pc)" "exercise_to_swap_title pc \<noteq> []" "chosen \<noteq> []"
  shows "suggestion_implement E message s =
     (case swap_try E pc chosen s of
        (Returned response, s1) \<Rightarrow> (Inr response, s1\<lparr>pending_swap_context := None\<rparr>)
      | (Finished prompt, s1) \<Rightarrow>
          get_chat_response E (Prompt prompt) (s1\<lparr>pending_swap_context := None\<rparr>)
      | (Raised e, s1) \<Rightarrow>
          get_chat_response E
            (Prompt (ImplementFailed (routine_name pc) (exercise_to_swap_title pc) chosen))
            (s1\<lparr>pending_swap_context := None\<rparr>))"
  using assms by (simp add: suggestion_implement_def)

lemma implement_clears_pending:
  assumes "pending_swap_context s = Some pc" "ptype pc = ''EXERCISE_SWAP''"
    "extract_choice (suggestions pc) message = Some chosen"
  shows "pending_swap_context (snd (suggestion_implement E message s)) = None"
  using assms
  by (auto simp: suggestion_implement_def split: prod.splits try_outcome.splits)

lemma implement_writes_of_try:
  assumes "pending_swap_context s = Some pc" "ptype pc = ''EXERCISE_SWAP''"
    "extract_choice (suggestions pc) message = Some chosen"
  shows "routine_writes (snd (suggestion_implement E message s)) = routine_writes s
         \<or> routine_writes (snd (suggestion_implement E message s))
             = routine_writes (snd (swap_try E pc chosen s))"
  using assms
  by (auto simp: suggestion_implement_def split: prod.splits try_outcome.splits)

lemma return_chat_returned:
  "get_chat_response E (Prompt p) s = (Inr r, s1) \<Longrightarrow> return_chat E p s = (Returned r, s1)"
  by (simp add: return_chat_def)

text \<open>
  Claim C1 as stated fails: with a pending swap and an empty template cache, the message
  \<open>use Incline Press\<close> leaves no pending context; likewise with the loaded cache and the
  message \<open>use Cable Fly\<close>, whose title is not in the cache.
\<close>

theorem cache_empty_retry_counterexample:
  "pending_swap_context (pending_optimizer\<lparr>cached_templates := Some []\<rparr>) = Some example_pending
   \<and> pending_swap_context
        (snd (get_modification_response example_env ''use Incline Press''
                ''SUGGESTION_IMPLEMENT'' [] (pending_optimizer\<lparr>cached_templates := Some []\<rparr>)))
       = None
   \<and> pending_swap_context pending_optimizer = Some example_pending
   \<and> pending_swap_context
        (snd (get_modification_response example_env ''use Cable Fly''
                ''SUGGESTION_IMPLEMENT'' [] pending_optimizer))
       = None"
  by code_simp

text \<open>
  Claim C2. In an implement-phase run where the chosen alternative is in the cache with an
  id and the snapshot (a list of exercise dictionaries) has an entry titled
  \<open>exercise_to_swap_title\<close>, exactly one routine write is added: under the stored routine id,
  with the stored routine name as title, and with the snapshot in which each entry of that
  title is replaced by the new exercise (the chosen template's id, three sets of type
  \<open>normal\<close> with weight and reps \<open>None\<close>) and every other entry has lost its \<open>index\<close> key.
  Afterwards the pending context is \<open>None\<close>.
\<close>

theorem swap_writes_updated_snapshot:
  assumes "pending_swap_context s = Some pc" and "ptype pc = ''EXERCISE_SWAP''"
    and "extract_choice (suggestions pc) message = Some chosen"
    and "truthy (routine_id pc)" and "exercise_to_swap_title pc \<noteq> []" and "chosen \<noteq> []"
    and "cached_templates s = Some ts"
    and "find (\<lambda>t. title t = Some chosen) ts = Some tpl"
    and "id tpl = Some tid" and "tid \<noteq> []"
    and "current_exercises pc = JList (map JObj ds)"
    and "\<exists>d \<in> set ds. dict_get d ''title'' = JStr (exercise_to_swap_title pc)"
  shows "routine_writes
           (snd (get_modification_response E message ''SUGGESTION_IMPLEMENT'' context s))
         = routine_writes s @
           [(routine_id pc,
             [(''routine'',
               JObj [(''title'', routine_name pc),
                     (''exercises'',
                      JList (map (\<lambda>d. if dict_get d ''title'' = JStr (exercise_to_swap_title pc)
                                       then JObj [(''title'', JStr chosen),
                                                  (''notes'', JNull),
                                                  (''exercise_template_id'', JStr tid),
                                                  (''superset_id'', JNull),
                                                  (''sets'',
                                                   JList (replicate 3
                                                     (JObj [(''type'', JStr ''normal''),
                                                            (''weight_kg'', JNull),
                                                            (''reps'', JNull)])))]
                                       else JObj (filter (\<lambda>kv. fst kv \<noteq> ''index'') d))
                              ds))])])]
       \<and> pending_swap_context
           (snd (get_modification_response E message ''SUGGESTION_IMPLEMENT'' context s)) = None"
proof -
  have gm: "get_modification_response E message ''SUGGESTION_IMPLEMENT'' context s
              = suggestion_implement E message s"
    by (simp add: get_modification_response_def)
  have cleared: "pending_swap_context (snd (suggestion_implement E message s)) = None"
    using assms(1-3) by (rule implement_clears_pending)
  obtain t ts' where ts: "ts = t # ts'"
    using assms(8) by (cases ts) auto
  let ?new = "new_exercise chosen tid"
  let ?upd = "map (\<lambda>d. if dict_get d ''title'' = JStr (exercise_to_swap_title pc)
                        then JObj ?new else JObj (dict_pop ''index'' d)) ds"
  let ?payload = "update_payload (routine_name pc) ?upd"
  let ?s1 = "s\<lparr>calls := calls s @ [UpdateRoutine (routine_id pc) ?payload]\<rparr>"
  have body: "swap_try E pc chosen s =
          (case update_routine E (routine_id pc) ?payload of
             Inr update_response \<Rightarrow>
               (Finished (ImplementDone (routine_name pc) (exercise_to_swap_title pc) chosen), ?s1)
           | Inl e \<Rightarrow> (Raised e, ?s1))"
    using assms(7-12)
    by (simp add: swap_try_def ts swap_exercises_dicts Let_def del: find.simps)
  have w1: "routine_writes ?s1 = routine_writes s @ [(routine_id pc, ?payload)]"
    by (simp add: routine_writes_def List.map_filter_def)
  have "routine_writes (snd (suggestion_implement E message s)) = routine_writes ?s1"
    using implement_passes_validation[OF assms(1-6), of E]
    by (simp add: body split: sum.splits)
  then have writes: "routine_writes (snd (suggestion_implement E message s))
      = routine_writes s @ [(routine_id pc, ?payload)]"
    using w1 by simp
  have lit: "replicate 3 x = [x, x, x]" for x :: jval
    by (simp add: numeral_3_eq_3)
  show ?thesis
    using cleared writes
    by (simp add: gm update_payload_def new_exercise_def empty_set_def dict_pop_def lit)
qed

text \<open>Claim C2 on the example: \<open>Bench Press\<close> replaced by \<open>Incline Press\<close> in \<open>Push Day\<close>.\<close>

theorem swap_writes_updated_snapshot_witness:
  "extract_choice (suggestions example_pending) ''use Incline Press'' = Some ''Incline Press''
   \<and> find (\<lambda>t. title t = Some ''Incline Press'') example_cache = Some incline_press
   \<and> routine_writes pending_optimizer = []
   \<and> routine_writes
        (snd (get_modification_response example_env ''use Incline Press''
                ''SUGGESTION_IMPLEMENT'' [] pending_optimizer))
       = [(JStr ''R1'',
           [(''routine'',
             JObj [(''title'', JStr ''Push Day''),
                   (''exercises'',
                    JList [JObj [(''title'', JStr ''Incline Press''),
                                 (''notes'', JNull),
                                 (''exercise_template_id'', JStr ''T2''),
                                 (''superset_id'', JNull),
                                 (''sets'',
                                  JList [JObj [(''type'', JStr ''normal''),
                                               (''weight_kg'', JNull), (''reps'', JNull)],
                                         JObj [(''type'', JStr ''normal''),
                                               (''weight_kg'', JNull), (''reps'', JNull)],
                                         JObj [(''type'', JStr ''normal''),
                                               (''weight_kg'', JNull), (''reps'', JNull)]])],
                           JObj [(''title'', JStr ''Squat''),
                                 (''exercise_template_id'', JStr ''T3''),
                                 (''sets'', JList [])]])])])]
   \<and> pending_swap_context
        (snd (get_modification_response example_env ''use Incline Press''
                ''SUGGESTION_IMPLEMENT'' [] pending_optimizer))
       = None"
proof -
  let ?ds = "[[(''index'', JInt 0), (''title'', JStr ''Bench Press''),
               (''exercise_template_id'', JStr ''T1''), (''sets'', JList [])],
              [(''index'', JInt 1), (''title'', JStr ''Squat''),
               (''exercise_template_id'', JStr ''T3''), (''sets'', JList [])]]"
  have h1: "pending_swap_context pending_optimizer = Some example_pending"
    by (simp add: pending_optimizer_def)
  have h2: "ptype example_pending = ''EXERCISE_SWAP''"
    by (simp add: example_pending_def)
  have h3: "extract_choice (suggestions example_pending) ''use Incline Press''
              = Some ''Incline Press''"
    by code_simp
  have h4: "truthy (routine_id example_pending)"
    by (simp add: example_pending_def)
  have h5: "exercise_to_swap_title example_pending \<noteq> []"
    by (simp add: example_pending_def)
  have h6: "''Incline Press'' \<noteq> []"
    by simp
  have h7: "cached_templates pending_optimizer = Some example_cache"
    by (simp add: pending_optimizer_def loaded_optimizer_def)
  have h8: "find (\<lambda>t. title t = Some ''Incline Press'') example_cache = Some incline_press"
    by (simp add: example_cache_def bench_press_def squat_def incline_press_def)
  have h9: "id incline_press = Some ''T2''"
    by (simp add: incline_press_def)
  have h10: "''T2'' \<noteq> []"
    by simp
  have h11: "current_exercises example_pending = JList (map JObj ?ds)"
    by (simp add: example_pending_def example_exercises_def)
  have h12: "\<exists>d \<in> set ?ds. dict_get d ''title'' = JStr (exercise_to_swap_title example_pending)"
    by (simp add: example_pending_def dict_get_def)
  have w: "routine_writes pending_optimizer = []"
    by (simp add: routine_writes_def pending_optimizer_def loaded_optimizer_def
        fresh_optimizer_def List.map_filter_def)
  have e: "routine_id example_pending = JStr ''R1''"
    "routine_name example_pending = JStr ''Push Day''"
    "exercise_to_swap_title example_pending = ''Bench Press''"
    by (simp_all add: example_pending_def)
  from swap_writes_updated_snapshot[OF h1 h2 h3 h4 h5 h6 h7 h8 h9 h10 h11 h12,
      of example_env "[]"]
  show ?thesis
    using h3 h8 w by (simp add: e dict_get_def numeral_3_eq_3)
qed

subsection \<open>The template cache\<close>

lemma gcr_cacheD:
  "get_chat_response E p s = (r, s1) \<Longrightarrow> cached_templates s1 = cached_templates s"
  by (metis gcr_cache snd_conv)

lemma return_chat_cacheD:
  "return_chat E p s = (r, s1) \<Longrightarrow> cached_templates s1 = cached_templates s"
  by (metis return_chat_cache snd_conv)

lemma swap_try_cache:
  "cached_templates (snd (swap_try E pc chosen s)) = cached_templates s"
  by (auto simp: swap_try_def Let_def
      split: option.splits list.splits sum.splits prod.splits)

lemma suggestion_implement_cache:
  "cached_templates (snd (suggestion_implement E message s)) = cached_templates s"
proof -
  have "cached_templates s1 = cached_templates s" if "swap_try E pc chosen s = (r, s1)"
    for pc chosen r s1
    using swap_try_cache[of E pc chosen s] that by simp
  then show ?thesis
    by (auto simp: suggestion_implement_def
        split: option.splits prod.splits try_outcome.splits)
qed

lemma store_pending_swap_cache:
  "cached_templates (snd (store_pending_swap target rname nm swaps response s))
     = cached_templates s"
  by (simp add: store_pending_swap_def split: sum.splits)

lemma suggest_swaps_cache:
  "cached_templates (snd (suggest_swaps E target rname nm ts s)) = cached_templates s"
proof -
  obtain r s1 where g: "get_chat_response E
      (Prompt (swap_prompt nm rname (find_muscle ts nm)
                 (if truthy_str (find_muscle ts nm)
                  then potential_swaps ts nm (find_muscle ts nm) else []))) s = (r, s1)"
    by (metis surj_pair)
  have "cached_templates s1 = cached_templates s"
    using g by (rule gcr_cacheD)
  then show ?thesis
    by (cases r) (simp_all add: suggest_swaps_def Let_def g store_pending_swap_cache)
qed

lemma exercise_swap_cache:
  "cached_templates (snd (exercise_swap E ctx s)) = cached_templates s"
  by (simp add: exercise_swap_def Let_def suggest_swaps_cache
      split: option.splits list.splits sum.splits)

lemma get_modification_response_cache:
  "cached_templates (snd (get_modification_response E message intent ctx s))
     = cached_templates s"
  by (simp add: get_modification_response_def suggestion_implement_cache exercise_swap_cache)

lemma get_info_response_cache:
  "cached_templates (snd (get_info_response E message intent ctx s)) = cached_templates s"
  by (simp add: get_info_response_def split: sum.splits)

lemma load_templates_cache_loaded:
  "cached_templates s = Some ts \<Longrightarrow> load_templates_cache E s = s"
  by (simp add: load_templates_cache_def)

lemma load_templates_cache_first:
  "cached_templates s = None \<Longrightarrow>
   cached_templates (load_templates_cache E s)
     = (case get_all_exercise_templates E of Inr ts \<Rightarrow> Some ts | Inl e \<Rightarrow> Some [])"
  by (simp add: load_templates_cache_def Let_def split: sum.splits)

lemma analyze_program_cache:
  "cached_templates s = Some ts \<Longrightarrow>
   cached_templates (snd (analyze_program E user_message s)) = Some ts"
  by (auto simp: analyze_program_def Let_def dest: gcr_cacheD
      split: sum.splits prod.splits)

lemma get_analysis_response_cache:
  "cached_templates s = Some ts \<Longrightarrow>
   cached_templates (snd (get_analysis_response E message intent ctx s)) = Some ts"
proof -
  assume c: "cached_templates s = Some ts"
  have "cached_templates s1 = Some ts" if "analyze_program E message s = (r, s1)" for r s1
    using analyze_program_cache[OF c, of E message] that by simp
  then show ?thesis
    using c by (auto simp: get_analysis_response_def Let_def
        split: sum.splits prod.splits)
qed

lemma reported_snd:
  "snd (case r of (Inl e, s1) \<Rightarrow> (Inl e, s1) | (Inr x, s1) \<Rightarrow> (Inr (f x), s1)) = snd r"
  by (auto split: prod.splits sum.splits)

lemma route_cache:
  assumes "cached_templates s = Some ts"
  shows "cached_templates (snd (route E user_message intent ctx s)) = Some ts"
  using assms
  by (simp add: route_def Let_def reported_snd get_modification_response_cache
      get_info_response_cache get_analysis_response_cache)

lemma resume_or_classify_cache:
  "cached_templates (snd (resume_or_classify E user_message s)) = cached_templates s"
  by (auto simp: resume_or_classify_def resume_pending_def classify_turn_def Let_def
      split: option.splits prod.splits)

lemma record_turn_cache:
  "cached_templates (record_turn user_message response_content s) = cached_templates s"
  by (simp add: record_turn_def Let_def)

lemma workout_chat_cache:
  assumes "cached_templates s = Some ts"
  shows "cached_templates (snd (workout_chat E user_message s)) = Some ts"
proof -
  obtain intent ctx s1 where rc: "resume_or_classify E user_message s = ((intent, ctx), s1)"
    by (metis surj_pair)
  have c1: "cached_templates s1 = Some ts"
    using resume_or_classify_cache[of E user_message s] rc assms by simp
  obtain r s2 where rt: "route E user_message intent ctx s1 = (r, s2)"
    by (metis surj_pair)
  have c2: "cached_templates s2 = Some ts"
    using route_cache[OF c1, of E user_message intent ctx] rt by simp
  show ?thesis
    using c2 by (auto simp: workout_chat_def rc rt record_turn_cache split: sum.splits)
qed

lemma exercise_swap_cache_empty:
  assumes "cached_templates s = Some []"
    and "truthy (dict_get ctx ''exercise_name'')"
    and "\<not> truthy (dict_get ctx ''target_routine_details'')
         \<or> (\<exists>d. dict_get ctx ''target_routine_details'' = JObj d)"
  shows "exercise_swap E ctx s
     = get_chat_response E (Prompt (SwapCacheEmpty (dict_get ctx ''exercise_name''))) s"
  using assms by (auto simp: exercise_swap_def Let_def)

text \<open>
  Claim C10, as amended. \<open>load_templates_cache\<close> fetches only when the cache is \<open>None\<close>: it
  then stores the fetched templates, or the empty list when the fetch raises. On any other
  cache value it changes nothing, and no chat turn changes a cache that is not \<open>None\<close>, so
  the empty list of a failed load stays for the life of the process. With the cache empty, a
  swap proposal that names an exercise (its routine details absent or a dictionary) is
  answered by the completion of the cache-empty message.
\<close>

theorem template_cache_loaded_once:
  "(cached_templates s = Some ts \<longrightarrow>
      load_templates_cache E s = s
      \<and> cached_templates (snd (workout_chat E user_message s)) = Some ts)
   \<and> (cached_templates s = None \<longrightarrow>
      cached_templates (load_templates_cache E s)
        = (case get_all_exercise_templates E of Inr ts' \<Rightarrow> Some ts' | Inl e \<Rightarrow> Some []))
   \<and> (cached_templates s = Some []
        \<and> truthy (dict_get ctx ''exercise_name'')
        \<and> (\<not> truthy (dict_get ctx ''target_routine_details'')
             \<or> (\<exists>d. dict_get ctx ''target_routine_details'' = JObj d)) \<longrightarrow>
      get_modification_response E message ''EXERCISE_SWAP'' ctx s
        = get_chat_response E (Prompt (SwapCacheEmpty (dict_get ctx ''exercise_name''))) s)"
  using load_templates_cache_loaded[of s ts E] workout_chat_cache[of s ts E user_message]
    load_templates_cache_first[of s E] exercise_swap_cache_empty[of s ctx E]
  by (simp add: get_modification_response_def)

text \<open>
  Claim C10 as stated fails in its last part: after a failed load, a swap proposal whose
  context has no exercise name is answered by the name-missing message, not by the
  cache-empty one.
\<close>

theorem proposal_without_name_counterexample:
  "cached_templates (load_templates_cache failing_env fresh_optimizer) = Some []
   \<and> calls (snd (get_modification_response failing_env ''swap it'' ''EXERCISE_SWAP'' []
                   (load_templates_cache failing_env fresh_optimizer)))
       = [FetchTemplates,
          Completion [(System, Prompt SystemDefault), (User, Prompt SwapNameMissing)]
            (Some ''ok'')]"
  by (simp add: load_templates_cache_def failing_env_def example_env_def fresh_optimizer_def
      get_modification_response_def exercise_swap_def dict_get_def get_chat_response_def Let_def)

text \<open>The amended claim C10 on the example: a loaded cache, and a failed first load.\<close>

theorem template_cache_loaded_once_witness:
  "cached_templates loaded_optimizer = Some example_cache
   \<and> load_templates_cache example_env loaded_optimizer = loaded_optimizer
   \<and> cached_templates (snd (workout_chat example_env ''hello'' loaded_optimizer))
       = Some example_cache
   \<and> cached_templates fresh_optimizer = None
   \<and> cached_templates (load_templates_cache failing_env fresh_optimizer) = Some []
   \<and> load_templates_cache failing_env (load_templates_cache failing_env fresh_optimizer)
       = load_templates_cache failing_env fresh_optimizer
   \<and> get_modification_response failing_env ''swap Bench Press'' ''EXERCISE_SWAP''
         [(''exercise_name'', JStr ''Bench Press'')]
         (load_templates_cache failing_env fresh_optimizer)
       = get_chat_response failing_env (Prompt (SwapCacheEmpty (JStr ''Bench Press'')))
           (load_templates_cache failing_env fresh_optimizer)"
proof -
  let ?f = "load_templates_cache failing_env fresh_optimizer"
  let ?c = "[(''exercise_name'', JStr ''Bench Press'')]"
  have l: "cached_templates loaded_optimizer = Some example_cache"
    by (simp add: loaded_optimizer_def)
  have n: "cached_templates fresh_optimizer = None"
    by (simp add: fresh_optimizer_def)
  have e: "get_all_exercise_templates failing_env = Inl (CollaboratorError ''503 Server Error'')"
    by (simp add: failing_env_def)
  have f: "cached_templates ?f = Some []"
    using template_cache_loaded_once[of fresh_optimizer "[]" failing_env "[]" "[]" "[]"] n e
    by simp
  have h: "truthy (dict_get ?c ''exercise_name'')
           \<and> (\<not> truthy (dict_get ?c ''target_routine_details'')
                \<or> (\<exists>d. dict_get ?c ''target_routine_details'' = JObj d))"
    by (simp add: dict_get_def)
  show ?thesis
    using template_cache_loaded_once[of loaded_optimizer example_cache example_env
        "''hello''" "[]" "[]"]
      template_cache_loaded_once[of ?f "[]" failing_env "[]" ?c "''swap Bench Press''"]
      l n f h
    by (simp add: dict_get_def)
qed

subsection \<open>The propose phase\<close>

lemma title_eq_str: "title_eq a (JStr n) = (a = Some n)"
  by (cases a) auto

lemma find_muscle_find:
  "find_muscle ts (JStr n)
     = (case find (\<lambda>t. title t = Some n) ts of
          None \<Rightarrow> None
        | Some t \<Rightarrow> primary_muscle_group t)"
  by (induction ts) (simp_all add: title_eq_str)

lemma potential_swaps_filter:
  "potential_swaps ts (JStr n) muscle
     = map (\<lambda>t. \<lparr>name = title t, sugg_id = id t, muscles = primary_muscle_group t\<rparr>)
         (filter (\<lambda>t. primary_muscle_group t = muscle \<and> title t \<noteq> Some n) ts)"
  by (simp add: potential_swaps_def title_eq_str)

text \<open>
  Claim C3, as amended. A propose-phase request whose exercise has a known muscle group in
  the cache and at least one other cached template of that group, whose target routine was
  resolved (non-empty routine details), and whose completion call returns, ends with a
  pending context that stores the routine id and name, the exercise title, the snapshot of
  the routine's exercises and the suggestions shown: the first five alternatives at most,
  in cache order.
\<close>

theorem proposal_stores_pending_swap:
  assumes "dict_get ctx ''exercise_name'' = JStr n" and "n \<noteq> []"
    and "dict_get ctx ''target_routine_details'' = JObj d" and "d \<noteq> []"
    and "cached_templates s = Some ts"
    and "find (\<lambda>t. title t = Some n) ts = Some t0"
    and "primary_muscle_group t0 = Some m" and "m \<noteq> []"
    and "filter (\<lambda>t. primary_muscle_group t = Some m \<and> title t \<noteq> Some n) ts \<noteq> []"
    and "fst (get_modification_response E message ''EXERCISE_SWAP'' ctx s) = Inr response"
  shows "\<exists>pc. pending_swap_context
                (snd (get_modification_response E message ''EXERCISE_SWAP'' ctx s)) = Some pc
          \<and> ptype pc = ''EXERCISE_SWAP''
          \<and> routine_id pc = dict_get d ''id''
          \<and> routine_name pc = dict_get_default d ''title'' (JStr ''the routine'')
          \<and> exercise_to_swap_title pc = n
          \<and> current_exercises pc = dict_get_default d ''exercises'' (JList [])
          \<and> suggestions pc
              = take 5 (map (\<lambda>t. \<lparr>name = title t, sugg_id = id t,
                                    muscles = primary_muscle_group t\<rparr>)
                         (filter (\<lambda>t. primary_muscle_group t = Some m \<and> title t \<noteq> Some n) ts))
          \<and> length (suggestions pc)
              = min 5 (length (filter (\<lambda>t. primary_muscle_group t = Some m
                                            \<and> title t \<noteq> Some n) ts))"
proof -
  let ?alts = "filter (\<lambda>t. primary_muscle_group t = Some m \<and> title t \<noteq> Some n) ts"
  let ?swaps = "map (\<lambda>t. \<lparr>name = title t, sugg_id = id t, muscles = primary_muscle_group t\<rparr>)
                  ?alts"
  let ?rname = "dict_get_default d ''title'' (JStr ''the routine'')"
  let ?ps = "potential_swaps ts (JStr n) (Some m)"
  let ?p = "Prompt (swap_prompt (JStr n) ?rname (Some m) ?ps)"
  have muscle: "find_muscle ts (JStr n) = Some m"
    using assms(6,7) by (simp add: find_muscle_find)
  have swaps: "?ps = ?swaps"
    by (rule potential_swaps_filter)
  have ne: "?ps \<noteq> []"
    using assms(9) by (simp add: swaps)
  have es: "exercise_swap E ctx s = suggest_swaps E (JObj d) ?rname (JStr n) ts s"
    using assms(1-6) by (cases ts) (simp_all add: exercise_swap_def Let_def)
  have gm: "get_modification_response E message ''EXERCISE_SWAP'' ctx s
      = (case get_chat_response E ?p s of
           (Inl e, s1) \<Rightarrow> (Inl e, s1)
         | (Inr r, s1) \<Rightarrow> store_pending_swap (JObj d) ?rname (JStr n) ?ps r s1)"
    using assms(8) muscle
    by (simp add: get_modification_response_def es suggest_swaps_def Let_def)
  obtain r s1 where g: "get_chat_response E ?p s = (r, s1)"
    by (metis surj_pair)
  have "r = Inr response"
    using assms(10) ne assms(2,4)
    by (cases r) (simp_all add: gm g store_pending_swap_def)
  then have "get_modification_response E message ''EXERCISE_SWAP'' ctx s
      = store_pending_swap (JObj d) ?rname (JStr n) ?ps response s1"
    by (simp add: gm g)
  then show ?thesis
    using ne assms(2,4)
    by (simp add: store_pending_swap_def dict_get_default_def dict_get_def swaps
        split: option.splits)
qed

text \<open>
  Claim C3 as stated fails: \<open>Bench Press\<close> has the muscle group \<open>Chest\<close> in the cache and
  \<open>Incline Press\<close> shares it, but the request names no routine that was resolved, and the
  handler ends with no pending context.
\<close>

theorem proposal_without_routine_counterexample:
  "find_muscle example_cache (JStr ''Bench Press'') = Some ''Chest''
   \<and> potential_swaps example_cache (JStr ''Bench Press'') (Some ''Chest'')
       = [\<lparr>name = Some ''Incline Press'', sugg_id = Some ''T2'', muscles = Some ''Chest''\<rparr>]
   \<and> fst (get_modification_response example_env ''swap Bench Press'' ''EXERCISE_SWAP''
             [(''exercise_name'', JStr ''Bench Press'')] loaded_optimizer) = Inr ''ok''
   \<and> pending_swap_context
        (snd (get_modification_response example_env ''swap Bench Press'' ''EXERCISE_SWAP''
                [(''exercise_name'', JStr ''Bench Press'')] loaded_optimizer)) = None"
  by code_simp

text \<open>The amended claim C3 on the example: \<open>Bench Press\<close> in \<open>Push Day\<close>.\<close>

theorem proposal_stores_pending_swap_witness:
  "find (\<lambda>t. title t = Some ''Bench Press'') example_cache = Some bench_press
   \<and> filter (\<lambda>t. primary_muscle_group t = Some ''Chest'' \<and> title t \<noteq> Some ''Bench Press'')
        example_cache = [incline_press]
   \<and> pending_swap_context
        (snd (get_modification_response example_env ''swap Bench Press in Push Day''
                ''EXERCISE_SWAP''
                [(''exercise_name'', JStr ''Bench Press''),
                 (''target_routine_details'', example_routine)] loaded_optimizer))
       = Some example_pending"
proof -
  let ?ctx = "[(''exercise_name'', JStr ''Bench Press''),
               (''target_routine_details'', example_routine)]"
  let ?d = "[(''id'', JStr ''R1''), (''title'', JStr ''Push Day''),
             (''exercises'', JList example_exercises)]"
  let ?R = "get_modification_response example_env ''swap Bench Press in Push Day''
              ''EXERCISE_SWAP'' ?ctx loaded_optimizer"
  have h1: "dict_get ?ctx ''exercise_name'' = JStr ''Bench Press''"
    by (simp add: dict_get_def)
  have h2: "''Bench Press'' \<noteq> []"
    by simp
  have h3: "dict_get ?ctx ''target_routine_details'' = JObj ?d"
    by (simp add: dict_get_def example_routine_def)
  have h4: "?d \<noteq> []"
    by simp
  have h5: "cached_templates loaded_optimizer = Some example_cache"
    by (simp add: loaded_optimizer_def)
  have h6: "find (\<lambda>t. title t = Some ''Bench Press'') example_cache = Some bench_press"
    by (simp add: example_cache_def bench_press_def)
  have h7: "primary_muscle_group bench_press = Some ''Chest''"
    by (simp add: bench_press_def)
  have h8: "''Chest'' \<noteq> []"
    by simp
  have f: "filter (\<lambda>t. primary_muscle_group t = Some ''Chest'' \<and> title t \<noteq> Some ''Bench Press'')
             example_cache = [incline_press]"
    by (simp add: example_cache_def bench_press_def squat_def incline_press_def)
  have h9: "filter (\<lambda>t. primary_muscle_group t = Some ''Chest'' \<and> title t \<noteq> Some ''Bench Press'')
             example_cache \<noteq> []"
    by (simp add: f)
  have h10: "fst ?R = Inr ''ok''"
    by code_simp
  from proposal_stores_pending_swap[OF h1 h2 h3 h4 h5 h6 h7 h8 h9 h10]
  obtain pc where pc: "pending_swap_context (snd ?R) = Some pc"
    "ptype pc = ''EXERCISE_SWAP''" "routine_id pc = dict_get ?d ''id''"
    "routine_name pc = dict_get_default ?d ''title'' (JStr ''the routine'')"
    "exercise_to_swap_title pc = ''Bench Press''"
    "current_exercises pc = dict_get_default ?d ''exercises'' (JList [])"
    "suggestions pc = take 5 (map (\<lambda>t. \<lparr>name = title t, sugg_id = id t,
                                    muscles = primary_muscle_group t\<rparr>)
        (filter (\<lambda>t. primary_muscle_group t = Some ''Chest'' \<and> title t \<noteq> Some ''Bench Press'')
           example_cache))"
    by blast
  have "pc = example_pending"
    using pc(2-7)
    by (simp add: f example_pending_def incline_press_def dict_get_def dict_get_default_def)
  then show ?thesis
    using pc(1) h6 f by simp
qed

subsection \<open>Resuming a pending swap at the start of a turn\<close>

lemma match_suggestion_None_iff:
  "match_suggestion gs m = None \<longleftrightarrow>
     \<not> (\<exists>g \<in> set gs. \<exists>t. name g = Some t \<and> t \<noteq> [] \<and> sublist (lower t) (lower m))"
  by (induction gs) (auto split: option.splits)

lemma match_suggestion_SomeD:
  "match_suggestion gs m = Some t \<Longrightarrow>
     t \<noteq> [] \<and> (\<exists>g \<in> set gs. name g = Some t) \<and> sublist (lower t) (lower m)"
  by (induction gs) (auto split: option.splits if_splits)

lemma classifier_calls_classify_turn:
  "classifier_calls (snd (classify_turn E m s)) = classifier_calls s @ [m]"
  by (simp add: classify_turn_def Let_def classifier_calls_def List.map_filter_def)

lemma classify_turn_result:
  "fst (classify_turn E m s)
     = (classify_intent E m (conversation_history s),
        get_relevant_context E (classify_intent E m (conversation_history s)) m)"
  by (simp add: classify_turn_def Let_def get_conversation_history_def)

lemma classify_turn_cleared:
  "pending_swap_context s = None \<Longrightarrow> pending_swap_context (snd (classify_turn E m s)) = None"
  by (simp add: classify_turn_def Let_def)

lemma classify_turn_other_intent:
  "classify_intent E m (conversation_history s) \<noteq> ''SUGGESTION_IMPLEMENT'' \<Longrightarrow>
   pending_swap_context (snd (classify_turn E m s)) = None"
  by (simp add: classify_turn_def Let_def get_conversation_history_def)

text \<open>
  The turn is taken as the answer to the proposal exactly when the extraction gives a name
  that is not empty.
\<close>

lemma extract_choice_nonempty_iff:
  "(\<exists>chosen. extract_choice suggs m = Some chosen \<and> chosen \<noteq> []) \<longleftrightarrow>
     (\<exists>g \<in> set suggs. \<exists>t. name g = Some t \<and> t \<noteq> [] \<and> sublist (lower t) (lower m))
     \<or> (\<exists>grp. re_search_choice m = Some grp \<and> strip grp \<noteq> [])"
proof (cases "match_suggestion suggs m")
  case None
  then have "\<not> (\<exists>g \<in> set suggs. \<exists>t. name g = Some t \<and> t \<noteq> [] \<and> sublist (lower t) (lower m))"
    by (simp add: match_suggestion_None_iff)
  moreover have "extract_choice suggs m = map_option strip (re_search_choice m)"
    by (simp add: extract_choice_def None)
  ultimately show ?thesis
    by (cases "re_search_choice m") auto
next
  case (Some t)
  from match_suggestion_SomeD[OF Some]
  have "t \<noteq> []" "\<exists>g \<in> set suggs. name g = Some t" "sublist (lower t) (lower m)"
    by auto
  moreover have "extract_choice suggs m = Some t"
    by (simp add: extract_choice_def Some)
  ultimately show ?thesis
    by auto
qed

text \<open>
  Claim C4. A turn that starts with a pending exercise swap: when the message contains a
  stored suggestion name (both lower-cased) or the choice pattern extracts a non-empty
  name, the intent is \<open>SUGGESTION_IMPLEMENT\<close>, the context is built from the stored routine
  id, exercise title and routine name and the chosen name, and the state is untouched, so
  the classifier is not called. Otherwise the pending context is cleared and the intent and
  context are those of the classifier and the resolver, called once; the pending context is
  \<open>None\<close> when the routing starts, whatever the intent.
\<close>

theorem pending_swap_resumed_or_cleared:
  assumes "pending_swap_context s = Some pc" and "ptype pc = ''EXERCISE_SWAP''"
  shows "if (\<exists>g \<in> set (suggestions pc). \<exists>t. name g = Some t \<and> t \<noteq> []
                \<and> sublist (lower t) (lower message))
            \<or> (\<exists>grp. re_search_choice message = Some grp \<and> strip grp \<noteq> [])
         then \<exists>chosen. chosen \<noteq> []
                \<and> extract_choice (suggestions pc) message = Some chosen
                \<and> ((\<exists>g \<in> set (suggestions pc). name g = Some chosen
                        \<and> sublist (lower chosen) (lower message))
                    \<or> (\<exists>grp. re_search_choice message = Some grp \<and> chosen = strip grp))
                \<and> resume_or_classify E message s
                    = ((''SUGGESTION_IMPLEMENT'',
                        [(''routine_id'', routine_id pc),
                         (''exercise_to_swap_title'', JStr (exercise_to_swap_title pc)),
                         (''routine_name'', routine_name pc),
                         (''chosen_alternative_title'', JStr chosen)]), s)
                \<and> classifier_calls (snd (resume_or_classify E message s)) = classifier_calls s
         else fst (resume_or_classify E message s)
                = (classify_intent E message (conversation_history s),
                   get_relevant_context E
                     (classify_intent E message (conversation_history s)) message)
              \<and> pending_swap_context (snd (resume_or_classify E message s)) = None
              \<and> classifier_calls (snd (resume_or_classify E message s))
                  = classifier_calls s @ [message]"
proof (cases "match_suggestion (suggestions pc) message")
  case (Some t)
  from match_suggestion_SomeD[OF Some]
  have t: "t \<noteq> []" "\<exists>g \<in> set (suggestions pc). name g = Some t"
    "sublist (lower t) (lower message)"
    by auto
  have ec: "extract_choice (suggestions pc) message = Some t"
    by (simp add: extract_choice_def Some)
  have cond: "\<exists>g \<in> set (suggestions pc). \<exists>t. name g = Some t \<and> t \<noteq> []
                \<and> sublist (lower t) (lower message)"
    using t by blast
  have res: "resume_or_classify E message s
      = ((''SUGGESTION_IMPLEMENT'',
          [(''routine_id'', routine_id pc),
           (''exercise_to_swap_title'', JStr (exercise_to_swap_title pc)),
           (''routine_name'', routine_name pc),
           (''chosen_alternative_title'', JStr t)]), s)"
    using assms t(1) by (simp add: resume_or_classify_def resume_pending_def ec)
  show ?thesis
    using cond t ec res by auto
next
  case None
  then have nomatch: "\<not> (\<exists>g \<in> set (suggestions pc). \<exists>t. name g = Some t \<and> t \<noteq> []
                \<and> sublist (lower t) (lower message))"
    by (simp add: match_suggestion_None_iff)
  have ec: "extract_choice (suggestions pc) message = map_option strip (re_search_choice message)"
    by (simp add: extract_choice_def None)
  show ?thesis
  proof (cases "\<exists>grp. re_search_choice message = Some grp \<and> strip grp \<noteq> []")
    case True
    then obtain grp where grp: "re_search_choice message = Some grp" "strip grp \<noteq> []"
      by blast
    have res: "resume_or_classify E message s
      = ((''SUGGESTION_IMPLEMENT'',
          [(''routine_id'', routine_id pc),
           (''exercise_to_swap_title'', JStr (exercise_to_swap_title pc)),
           (''routine_name'', routine_name pc),
           (''chosen_alternative_title'', JStr (strip grp))]), s)"
      using assms grp by (simp add: resume_or_classify_def resume_pending_def ec)
    have "extract_choice (suggestions pc) message = Some (strip grp)"
      by (simp add: ec grp)
    then show ?thesis
      using True grp res by auto
  next
    case False
    have res: "resume_or_classify E message s
        = classify_turn E message (s\<lparr>pending_swap_context := None\<rparr>)"
      using assms False
      by (cases "re_search_choice message")
        (simp_all add: resume_or_classify_def resume_pending_def ec)
    have cc: "classifier_calls (s\<lparr>pending_swap_context := None\<rparr>) = classifier_calls s"
      by (simp add: classifier_calls_def)
    show ?thesis
      using False nomatch
      by (simp add: res classify_turn_result classifier_calls_classify_turn
          classify_turn_cleared cc)
  qed
qed

text \<open>
  Claim C4 on the example, whose one suggestion is \<open>Incline Press\<close>. A message that names
  it in other letter case resumes the swap with the stored spelling; a message with a verb
  of the pattern resumes it with the stripped group, also for a name with letters above
  0x7F; a verb followed by white space only, and a message with no verb and no suggestion,
  clear the pending context and are classified.
\<close>

theorem pending_swap_resumed_or_cleared_witness:
  "resume_or_classify example_env ''USE the incline PRESS'' pending_optimizer
       = ((''SUGGESTION_IMPLEMENT'',
           [(''routine_id'', JStr ''R1''),
            (''exercise_to_swap_title'', JStr ''Bench Press''),
            (''routine_name'', JStr ''Push Day''),
            (''chosen_alternative_title'', JStr ''Incline Press'')]), pending_optimizer)
   \<and> re_search_choice ''lets go with  Hack Squat , please'' = Some ''Hack Squat ''
   \<and> resume_or_classify example_env ''lets go with  Hack Squat , please'' pending_optimizer
       = ((''SUGGESTION_IMPLEMENT'',
           [(''routine_id'', JStr ''R1''),
            (''exercise_to_swap_title'', JStr ''Bench Press''),
            (''routine_name'', JStr ''Push Day''),
            (''chosen_alternative_title'', JStr ''Hack Squat'')]), pending_optimizer)
   \<and> resume_or_classify example_env epaule_message pending_optimizer
       = ((''SUGGESTION_IMPLEMENT'',
           [(''routine_id'', JStr ''R1''),
            (''exercise_to_swap_title'', JStr ''Bench Press''),
            (''routine_name'', JStr ''Push Day''),
            (''chosen_alternative_title'', JStr epaule_jete)]), pending_optimizer)
   \<and> classifier_calls pending_optimizer = []
   \<and> re_search_choice ''please use   '' = Some '' ''
   \<and> fst (resume_or_classify example_env ''please use   '' pending_optimizer)
       = (''GREETING'', [])
   \<and> pending_swap_context
        (snd (resume_or_classify example_env ''please use   '' pending_optimizer)) = None
   \<and> classifier_calls (snd (resume_or_classify example_env ''please use   ''
                                pending_optimizer)) = [''please use   '']
   \<and> re_search_choice ''what is the weather'' = None
   \<and> fst (resume_or_classify example_env ''what is the weather'' pending_optimizer)
       = (''GREETING'', [])
   \<and> pending_swap_context
        (snd (resume_or_classify example_env ''what is the weather'' pending_optimizer)) = None
   \<and> classifier_calls (snd (resume_or_classify example_env ''what is the weather''
                                pending_optimizer)) = [''what is the weather'']"
proof -
  let ?m1 = "''USE the incline PRESS''"
  let ?m2 = "''lets go with  Hack Squat , please''"
  let ?m3 = epaule_message
  let ?m4 = "''please use   ''"
  let ?m5 = "''what is the weather''"
  have h1: "pending_swap_context pending_optimizer = Some example_pending"
    by (simp add: pending_optimizer_def)
  have h2: "ptype example_pending = ''EXERCISE_SWAP''"
    by (simp add: example_pending_def)
  have w: "classifier_calls pending_optimizer = []"
    by (simp add: classifier_calls_def pending_optimizer_def loaded_optimizer_def
        fresh_optimizer_def List.map_filter_def)
  have v: "routine_id example_pending = JStr ''R1''"
    "exercise_to_swap_title example_pending = ''Bench Press''"
    "routine_name example_pending = JStr ''Push Day''"
    by (simp_all add: example_pending_def)
  have k: "\<And>m. classify_intent example_env m (conversation_history pending_optimizer)
             = ''GREETING''"
    "\<And>m. get_relevant_context example_env ''GREETING'' m = []"
    by (simp_all add: example_env_def)
  have sg: "suggestions example_pending
              = [\<lparr>name = Some ''Incline Press'', sugg_id = Some ''T2'', muscles = Some ''Chest''\<rparr>]"
    by (simp add: example_pending_def)

  have e1: "extract_choice (suggestions example_pending) ?m1 = Some ''Incline Press''"
    by code_simp
  have s1: "sublist (lower ''Incline Press'') (lower ?m1)"
    by code_simp
  have c1: "\<exists>g \<in> set (suggestions example_pending). \<exists>t. name g = Some t \<and> t \<noteq> []
              \<and> sublist (lower t) (lower ?m1)"
    using s1 by (simp add: sg)
  from pending_swap_resumed_or_cleared[OF h1 h2, of ?m1 example_env] c1
  have a1: "resume_or_classify example_env ?m1 pending_optimizer
       = ((''SUGGESTION_IMPLEMENT'',
           [(''routine_id'', JStr ''R1''),
            (''exercise_to_swap_title'', JStr ''Bench Press''),
            (''routine_name'', JStr ''Push Day''),
            (''chosen_alternative_title'', JStr ''Incline Press'')]), pending_optimizer)"
    by (auto simp: e1 v)

  have e2: "extract_choice (suggestions example_pending) ?m2 = Some ''Hack Squat''"
    by code_simp
  have r2: "re_search_choice ?m2 = Some ''Hack Squat ''"
    by code_simp
  have t2: "strip ''Hack Squat '' \<noteq> []"
    by code_simp
  have c2: "\<exists>grp. re_search_choice ?m2 = Some grp \<and> strip grp \<noteq> []"
    using r2 t2 by blast
  from pending_swap_resumed_or_cleared[OF h1 h2, of ?m2 example_env] c2
  have a2: "resume_or_classify example_env ?m2 pending_optimizer
       = ((''SUGGESTION_IMPLEMENT'',
           [(''routine_id'', JStr ''R1''),
            (''exercise_to_swap_title'', JStr ''Bench Press''),
            (''routine_name'', JStr ''Push Day''),
            (''chosen_alternative_title'', JStr ''Hack Squat'')]), pending_optimizer)"
    by (auto simp: e2 v)

  have e3: "extract_choice (suggestions example_pending) ?m3 = Some epaule_jete"
    by code_simp
  have r3: "re_search_choice ?m3 = Some epaule_jete"
    by code_simp
  have t3: "strip epaule_jete \<noteq> []"
    by code_simp
  have c3: "\<exists>grp. re_search_choice ?m3 = Some grp \<and> strip grp \<noteq> []"
    using r3 t3 by blast
  from pending_swap_resumed_or_cleared[OF h1 h2, of ?m3 example_env] c3
  have a3: "resume_or_classify example_env ?m3 pending_optimizer
       = ((''SUGGESTION_IMPLEMENT'',
           [(''routine_id'', JStr ''R1''),
            (''exercise_to_swap_title'', JStr ''Bench Press''),
            (''routine_name'', JStr ''Push Day''),
            (''chosen_alternative_title'', JStr epaule_jete)]), pending_optimizer)"
    by (auto simp: e3 v)

  have s4: "\<not> sublist (lower ''Incline Press'') (lower ?m4)"
    by code_simp
  have r4: "re_search_choice ?m4 = Some '' ''"
    by code_simp
  have t4: "strip '' '' = []"
    by code_simp
  have c4: "\<not> ((\<exists>g \<in> set (suggestions example_pending). \<exists>t. name g = Some t \<and> t \<noteq> []
              \<and> sublist (lower t) (lower ?m4))
            \<or> (\<exists>grp. re_search_choice ?m4 = Some grp \<and> strip grp \<noteq> []))"
    using s4 t4 by (simp add: sg r4 del: re_search_choice.simps)
  from pending_swap_resumed_or_cleared[OF h1 h2, of ?m4 example_env] c4
  have a4: "fst (resume_or_classify example_env ?m4 pending_optimizer) = (''GREETING'', [])
           \<and> pending_swap_context
               (snd (resume_or_classify example_env ?m4 pending_optimizer)) = None
           \<and> classifier_calls (snd (resume_or_classify example_env ?m4 pending_optimizer))
               = [?m4]"
    by (simp add: k w)

  have s5: "\<not> sublist (lower ''Incline Press'') (lower ?m5)"
    by code_simp
  have r5: "re_search_choice ?m5 = None"
    by code_simp
  have c5: "\<not> ((\<exists>g \<in> set (suggestions example_pending). \<exists>t. name g = Some t \<and> t \<noteq> []
              \<and> sublist (lower t) (lower ?m5))
            \<or> (\<exists>grp. re_search_choice ?m5 = Some grp \<and> strip grp \<noteq> []))"
    using s5 by (simp add: sg r5 del: re_search_choice.simps)
  from pending_swap_resumed_or_cleared[OF h1 h2, of ?m5 example_env] c5
  have a5: "fst (resume_or_classify example_env ?m5 pending_optimizer) = (''GREETING'', [])
           \<and> pending_swap_context
               (snd (resume_or_classify example_env ?m5 pending_optimizer)) = None
           \<and> classifier_calls (snd (resume_or_classify example_env ?m5 pending_optimizer))
               = [?m5]"
    by (simp add: k w)
  show ?thesis
    by (intro conjI) (fact a1 r2 a2 a3 w r4 r5 | rule a4[THEN conjunct1]
        a4[THEN conjunct2, THEN conjunct1] a4[THEN conjunct2, THEN conjunct2]
        a5[THEN conjunct1] a5[THEN conjunct2, THEN conjunct1]
        a5[THEN conjunct2, THEN conjunct2])+
qed

subsection \<open>The implement phase: when the pending context survives\<close>

lemma implement_unclear:
  assumes "pending_swap_context s = Some pc" "ptype pc = ''EXERCISE_SWAP''"
    "extract_choice (suggestions pc) message = None"
  shows "suggestion_implement E message s
           = get_chat_response E (Prompt (ChoiceUnclear message)) s"
  using assms by (simp add: suggestion_implement_def)

lemma implement_pending_after:
  assumes "pending_swap_context s = Some pc" "ptype pc = ''EXERCISE_SWAP''"
  shows "pending_swap_context (snd (suggestion_implement E message s))
           = (if extract_choice (suggestions pc) message = None then Some pc else None)"
proof (cases "extract_choice (suggestions pc) message")
  case None
  then show ?thesis
    using assms by (simp add: implement_unclear)
next
  case (Some chosen)
  then show ?thesis
    using implement_clears_pending[OF assms Some, of E] by simp
qed

text \<open>
  Claim C1, as amended. In the implement phase with a pending swap, the pending context is
  still there after the handler exactly when no choice could be resolved from the message:
  that clarification branch returns the completion of the request to name the exercise,
  before the \<open>try\<close> block. Every run with a resolved choice ends with the pending context
  \<open>None\<close>. In particular the two failure branches (template cache empty, chosen title not in
  the cache) are left by a \<open>return\<close> inside the \<open>try\<close> block, so the \<open>finally\<close> clause runs:
  no routine write is issued, and when the completion of the explanatory message returns,
  its reply is the handler's result, with the pending context cleared.
\<close>

theorem transient_failures_clear_pending:
  assumes "pending_swap_context s = Some pc" and "ptype pc = ''EXERCISE_SWAP''"
  shows "pending_swap_context
           (snd (get_modification_response E message ''SUGGESTION_IMPLEMENT'' ctx s))
           = (if extract_choice (suggestions pc) message = None then Some pc else None)
       \<and> (extract_choice (suggestions pc) message = None \<longrightarrow>
            get_modification_response E message ''SUGGESTION_IMPLEMENT'' ctx s
              = get_chat_response E (Prompt (ChoiceUnclear message)) s)
       \<and> (\<forall>chosen p.
            extract_choice (suggestions pc) message = Some chosen
            \<and> truthy (routine_id pc) \<and> exercise_to_swap_title pc \<noteq> [] \<and> chosen \<noteq> []
            \<and> (p = ImplementCacheEmpty chosen
                  \<and> (cached_templates s = None \<or> cached_templates s = Some [])
                \<or> p = ImplementTitleNotFound chosen
                  \<and> (\<exists>ts. cached_templates s = Some ts \<and> ts \<noteq> []
                           \<and> find (\<lambda>t. title t = Some chosen) ts = None)) \<longrightarrow>
            routine_writes
              (snd (get_modification_response E message ''SUGGESTION_IMPLEMENT'' ctx s))
              = routine_writes s
            \<and> (\<forall>r s1. get_chat_response E (Prompt p) s = (Inr r, s1) \<longrightarrow>
                  get_modification_response E message ''SUGGESTION_IMPLEMENT'' ctx s
                    = (Inr r, s1\<lparr>pending_swap_context := None\<rparr>)))"
proof -
  have gm: "get_modification_response E message ''SUGGESTION_IMPLEMENT'' ctx s
              = suggestion_implement E message s"
    by (simp add: get_modification_response_def)
  have after: "pending_swap_context (snd (suggestion_implement E message s))
           = (if extract_choice (suggestions pc) message = None then Some pc else None)"
    using assms by (rule implement_pending_after)
  have unclear: "suggestion_implement E message s
           = get_chat_response E (Prompt (ChoiceUnclear message)) s"
    if "extract_choice (suggestions pc) message = None"
    using assms that by (rule implement_unclear)
  have branch: "routine_writes (snd (suggestion_implement E message s)) = routine_writes s
      \<and> (\<forall>r s1. get_chat_response E (Prompt p) s = (Inr r, s1) \<longrightarrow>
            suggestion_implement E message s = (Inr r, s1\<lparr>pending_swap_context := None\<rparr>))"
    if choice: "extract_choice (suggestions pc) message = Some chosen"
      and valid: "truthy (routine_id pc)" "exercise_to_swap_title pc \<noteq> []" "chosen \<noteq> []"
      and p: "p = ImplementCacheEmpty chosen
                  \<and> (cached_templates s = None \<or> cached_templates s = Some [])
                \<or> p = ImplementTitleNotFound chosen
                  \<and> (\<exists>ts. cached_templates s = Some ts \<and> ts \<noteq> []
                           \<and> find (\<lambda>t. title t = Some chosen) ts = None)"
    for chosen p
  proof -
    have body: "swap_try E pc chosen s = return_chat E p s"
      using p swap_try_returns_cache_empty swap_try_returns_title_not_found by metis
    have "routine_writes (snd (swap_try E pc chosen s)) = routine_writes s"
      by (simp add: body)
    then have writes: "routine_writes (snd (suggestion_implement E message s)) = routine_writes s"
      using implement_writes_of_try[OF assms choice, of E] by auto
    have reply: "suggestion_implement E message s = (Inr r, s1\<lparr>pending_swap_context := None\<rparr>)"
      if "get_chat_response E (Prompt p) s = (Inr r, s1)" for r s1
      using implement_passes_validation[OF assms choice valid, of E] return_chat_returned[OF that]
      by (simp add: body)
    show ?thesis
      using writes reply by blast
  qed
  show ?thesis
    unfolding gm using after unclear branch by blast
qed

text \<open>
  The amended claim C1 on the example: the empty cache and \<open>use Incline Press\<close>; the loaded
  cache and \<open>use Cable Fly\<close>, which no template is called; and a message that names no
  choice, after which the pending context is still there.
\<close>

theorem transient_failures_clear_pending_witness:
  "extract_choice (suggestions example_pending) ''use Incline Press'' = Some ''Incline Press''
   \<and> get_modification_response example_env ''use Incline Press'' ''SUGGESTION_IMPLEMENT'' []
        (pending_optimizer\<lparr>cached_templates := Some []\<rparr>)
       = (Inr ''ok'',
          (snd (get_chat_response example_env (Prompt (ImplementCacheEmpty ''Incline Press''))
                  (pending_optimizer\<lparr>cached_templates := Some []\<rparr>)))
            \<lparr>pending_swap_context := None\<rparr>)
   \<and> routine_writes
        (snd (get_modification_response example_env ''use Incline Press''
                ''SUGGESTION_IMPLEMENT'' [] (pending_optimizer\<lparr>cached_templates := Some []\<rparr>)))
       = []
   \<and> extract_choice (suggestions example_pending) ''use Cable Fly'' = Some ''Cable Fly''
   \<and> find (\<lambda>t. title t = Some ''Cable Fly'') example_cache = None
   \<and> get_modification_response example_env ''use Cable Fly'' ''SUGGESTION_IMPLEMENT'' []
        pending_optimizer
       = (Inr ''ok'',
          (snd (get_chat_response example_env (Prompt (ImplementTitleNotFound ''Cable Fly''))
                  pending_optimizer))
            \<lparr>pending_swap_context := None\<rparr>)
   \<and> pending_swap_context
        (snd (get_modification_response example_env ''use Cable Fly'' ''SUGGESTION_IMPLEMENT'' []
                pending_optimizer)) = None
   \<and> extract_choice (suggestions example_pending) unclear_message = None
   \<and> get_modification_response example_env unclear_message ''SUGGESTION_IMPLEMENT'' []
        pending_optimizer
       = get_chat_response example_env (Prompt (ChoiceUnclear unclear_message)) pending_optimizer
   \<and> pending_swap_context
        (snd (get_modification_response example_env unclear_message ''SUGGESTION_IMPLEMENT'' []
                pending_optimizer)) = Some example_pending"
proof -
  let ?e = "pending_optimizer\<lparr>cached_templates := Some []\<rparr>"
  have h1: "pending_swap_context pending_optimizer = Some example_pending"
    "pending_swap_context ?e = Some example_pending"
    by (simp_all add: pending_optimizer_def)
  have h2: "ptype example_pending = ''EXERCISE_SWAP''"
    by (simp add: example_pending_def)
  have c1: "extract_choice (suggestions example_pending) ''use Incline Press''
              = Some ''Incline Press''"
    by code_simp
  have c2: "extract_choice (suggestions example_pending) ''use Cable Fly'' = Some ''Cable Fly''"
    by code_simp
  have c3: "extract_choice (suggestions example_pending) unclear_message = None"
    by code_simp
  have v: "truthy (routine_id example_pending)" "exercise_to_swap_title example_pending \<noteq> []"
    by (simp_all add: example_pending_def)
  have k1: "cached_templates ?e = Some []"
    by simp
  have k2: "cached_templates pending_optimizer = Some example_cache" "example_cache \<noteq> []"
    "find (\<lambda>t. title t = Some ''Cable Fly'') example_cache = None"
    by (simp_all add: pending_optimizer_def loaded_optimizer_def example_cache_def
        bench_press_def squat_def incline_press_def)
  have g1: "get_chat_response example_env (Prompt (ImplementCacheEmpty ''Incline Press'')) ?e
      = (Inr ''ok'',
         snd (get_chat_response example_env (Prompt (ImplementCacheEmpty ''Incline Press'')) ?e))"
    by (simp add: get_chat_response_def example_env_def)
  have g2: "get_chat_response example_env (Prompt (ImplementTitleNotFound ''Cable Fly''))
        pending_optimizer
      = (Inr ''ok'',
         snd (get_chat_response example_env (Prompt (ImplementTitleNotFound ''Cable Fly''))
                pending_optimizer))"
    by (simp add: get_chat_response_def example_env_def)
  have w: "routine_writes ?e = []"
    by (simp add: routine_writes_def pending_optimizer_def loaded_optimizer_def
        fresh_optimizer_def List.map_filter_def)
  note t1 = transient_failures_clear_pending[OF h1(2) h2, of example_env "''use Incline Press''" "[]"]
  note t2 = transient_failures_clear_pending[OF h1(1) h2, of example_env "''use Cable Fly''" "[]"]
  note t3 = transient_failures_clear_pending[OF h1(1) h2, of example_env unclear_message "[]"]
  have a: "routine_writes
        (snd (get_modification_response example_env ''use Incline Press''
                ''SUGGESTION_IMPLEMENT'' [] ?e)) = []
     \<and> get_modification_response example_env ''use Incline Press'' ''SUGGESTION_IMPLEMENT'' [] ?e
       = (Inr ''ok'',
          (snd (get_chat_response example_env (Prompt (ImplementCacheEmpty ''Incline Press''))
                  ?e))\<lparr>pending_swap_context := None\<rparr>)"
    using t1 c1 v k1 g1 w by (metis list.distinct(1))
  have b: "get_modification_response example_env ''use Cable Fly'' ''SUGGESTION_IMPLEMENT'' []
        pending_optimizer
       = (Inr ''ok'',
          (snd (get_chat_response example_env (Prompt (ImplementTitleNotFound ''Cable Fly''))
                  pending_optimizer))\<lparr>pending_swap_context := None\<rparr>)"
    using t2 c2 v k2 g2 by (metis list.distinct(1))
  have b': "pending_swap_context
        (snd (get_modification_response example_env ''use Cable Fly'' ''SUGGESTION_IMPLEMENT'' []
                pending_optimizer)) = None"
    using t2 c2 by simp
  have c: "get_modification_response example_env unclear_message ''SUGGESTION_IMPLEMENT'' []
        pending_optimizer
       = get_chat_response example_env (Prompt (ChoiceUnclear unclear_message)) pending_optimizer
     \<and> pending_swap_context
        (snd (get_modification_response example_env unclear_message ''SUGGESTION_IMPLEMENT'' []
                pending_optimizer)) = Some example_pending"
    using t3 c3 by (simp add: h1)
  show ?thesis
    using a b b' c c1 c2 c3 k2(3) by (simp add: h1 w)
qed

lemma implement_unclear_writes:
  assumes "pending_swap_context s = Some pc" "ptype pc = ''EXERCISE_SWAP''"
    "extract_choice (suggestions pc) message = None"
  shows "routine_writes (snd (suggestion_implement E message s)) = routine_writes s"
  using assms by (simp add: implement_unclear)

text \<open>
  Claim C5 as stated fails: the stored snapshot has no \<open>Deadlift\<close>, and after a message
  that names no choice the pending context is still there. The handler returns its request
  for clarification before the snapshot is looked at.
\<close>

theorem stale_snapshot_unclear_choice_counterexample:
  "pending_swap_context stale_optimizer = Some stale_pending
   \<and> ptype stale_pending = ''EXERCISE_SWAP''
   \<and> exercise_to_swap_title stale_pending = ''Deadlift''
   \<and> current_exercises stale_pending = JList example_exercises
   \<and> map (\<lambda>x. case x of JObj d \<Rightarrow> dict_get d ''title'' | _ \<Rightarrow> JNull) example_exercises
       = [JStr ''Bench Press'', JStr ''Squat'']
   \<and> fst (get_modification_response example_env unclear_message ''SUGGESTION_IMPLEMENT'' []
            stale_optimizer) = Inr ''ok''
   \<and> pending_swap_context
        (snd (get_modification_response example_env unclear_message ''SUGGESTION_IMPLEMENT'' []
                stale_optimizer)) = Some stale_pending"
  by code_simp

text \<open>
  Claim C5, as amended. In an implement-phase run whose stored snapshot has no entry titled
  \<open>exercise_to_swap_title\<close>, no routine write is issued, whatever the message. The pending
  context is cleared exactly when a choice can be resolved from the message; when none can,
  the handler returns the completion of its request for clarification and the pending
  context stays. When the run reaches the scan (choice resolved, required values present,
  chosen template found with an id, every entry a dictionary), the reply returned is the
  completion of the message saying that the exercise is no longer in the routine.
\<close>

theorem stale_snapshot_issues_no_write:
  assumes "pending_swap_context s = Some pc" and "ptype pc = ''EXERCISE_SWAP''"
    and "current_exercises pc = JList xs"
    and "\<forall>d. JObj d \<in> set xs \<longrightarrow> dict_get d ''title'' \<noteq> JStr (exercise_to_swap_title pc)"
  shows "routine_writes
           (snd (get_modification_response E message ''SUGGESTION_IMPLEMENT'' ctx s))
           = routine_writes s
       \<and> pending_swap_context
           (snd (get_modification_response E message ''SUGGESTION_IMPLEMENT'' ctx s))
           = (if extract_choice (suggestions pc) message = None then Some pc else None)
       \<and> (extract_choice (suggestions pc) message = None \<longrightarrow>
            get_modification_response E message ''SUGGESTION_IMPLEMENT'' ctx s
              = get_chat_response E (Prompt (ChoiceUnclear message)) s)
       \<and> (\<forall>chosen.
            extract_choice (suggestions pc) message = Some chosen
            \<and> truthy (routine_id pc) \<and> exercise_to_swap_title pc \<noteq> [] \<and> chosen \<noteq> []
            \<and> (\<exists>ts tpl tid. cached_templates s = Some ts
                  \<and> find (\<lambda>t. title t = Some chosen) ts = Some tpl
                  \<and> id tpl = Some tid \<and> tid \<noteq> [])
            \<and> (\<forall>x \<in> set xs. \<exists>d. x = JObj d) \<longrightarrow>
          (\<forall>r s1. get_chat_response E
                     (Prompt (ImplementStale (exercise_to_swap_title pc) (routine_name pc)))
                     (s\<lparr>pending_swap_context := None\<rparr>) = (Inr r, s1) \<longrightarrow>
             get_modification_response E message ''SUGGESTION_IMPLEMENT'' ctx s
               = (Inr r, s1\<lparr>pending_swap_context := None\<rparr>)))"
proof -
  have gm: "get_modification_response E message ''SUGGESTION_IMPLEMENT'' ctx s
              = suggestion_implement E message s"
    by (simp add: get_modification_response_def)
  have after: "pending_swap_context (snd (suggestion_implement E message s))
           = (if extract_choice (suggestions pc) message = None then Some pc else None)"
    using assms(1,2) by (rule implement_pending_after)
  have unclear: "suggestion_implement E message s
           = get_chat_response E (Prompt (ChoiceUnclear message)) s"
    if "extract_choice (suggestions pc) message = None"
    using assms(1,2) that by (rule implement_unclear)
  have writes: "routine_writes (snd (suggestion_implement E message s)) = routine_writes s"
  proof (cases "extract_choice (suggestions pc) message")
    case None
    with assms(1,2) show ?thesis
      by (rule implement_unclear_writes)
  next
    case (Some chosen)
    have "routine_writes (snd (swap_try E pc chosen s)) = routine_writes s"
      using assms(3,4) by (rule swap_try_stale_no_write)
    then show ?thesis
      using implement_writes_of_try[OF assms(1,2) Some, of E] by auto
  qed
  have reply: "suggestion_implement E message s = (Inr r, s1\<lparr>pending_swap_context := None\<rparr>)"
    if choice: "extract_choice (suggestions pc) message = Some chosen"
      and valid: "truthy (routine_id pc)" "exercise_to_swap_title pc \<noteq> []" "chosen \<noteq> []"
      and found: "cached_templates s = Some ts" "find (\<lambda>t. title t = Some chosen) ts = Some tpl"
        "id tpl = Some tid" "tid \<noteq> []"
      and dicts: "\<forall>x \<in> set xs. \<exists>d. x = JObj d"
      and gcr: "get_chat_response E
                  (Prompt (ImplementStale (exercise_to_swap_title pc) (routine_name pc)))
                  (s\<lparr>pending_swap_context := None\<rparr>) = (Inr r, s1)"
    for chosen ts tpl tid r s1
  proof -
    from dicts obtain ds where xs: "xs = map JObj ds"
      by (metis ex_map_conv)
    have none: "\<not> (\<exists>d \<in> set ds. dict_get d ''title'' = JStr (exercise_to_swap_title pc))"
      using assms(4) xs by auto
    obtain t ts' where ts: "ts = t # ts'"
      using found(2) by (cases ts) auto
    have "swap_try E pc chosen s = (Returned r, s1)"
      using found assms(3) none return_chat_returned[OF gcr]
      by (simp add: swap_try_def ts xs swap_exercises_dicts del: find.simps)
    then show ?thesis
      using implement_passes_validation[OF assms(1,2) choice valid, of E] by simp
  qed
  show ?thesis
    unfolding gm using after unclear writes reply by blast
qed

text \<open>
  The amended claim C5 on a snapshot that has no \<open>Deadlift\<close>: the message
  \<open>use Incline Press\<close> is answered with the stale-snapshot message and clears the pending
  context; a message that names no choice leaves it; neither issues a write.
\<close>

theorem stale_snapshot_issues_no_write_witness:
  "extract_choice (suggestions stale_pending) ''use Incline Press'' = Some ''Incline Press''
   \<and> current_exercises stale_pending = JList example_exercises
   \<and> exercise_to_swap_title stale_pending = ''Deadlift''
   \<and> routine_writes stale_optimizer = []
   \<and> routine_writes
        (snd (get_modification_response example_env ''use Incline Press''
                ''SUGGESTION_IMPLEMENT'' [] stale_optimizer)) = []
   \<and> pending_swap_context
        (snd (get_modification_response example_env ''use Incline Press''
                ''SUGGESTION_IMPLEMENT'' [] stale_optimizer)) = None
   \<and> fst (get_modification_response example_env ''use Incline Press''
                ''SUGGESTION_IMPLEMENT'' [] stale_optimizer) = Inr ''ok''
   \<and> calls (snd (get_modification_response example_env ''use Incline Press''
                ''SUGGESTION_IMPLEMENT'' [] stale_optimizer))
       = [Completion [(System, Prompt SystemDefault),
                      (User, Prompt (ImplementStale ''Deadlift'' (JStr ''Push Day'')))]
            (Some ''ok'')]
   \<and> extract_choice (suggestions stale_pending) unclear_message = None
   \<and> routine_writes
        (snd (get_modification_response example_env unclear_message
                ''SUGGESTION_IMPLEMENT'' [] stale_optimizer)) = []
   \<and> get_modification_response example_env unclear_message ''SUGGESTION_IMPLEMENT'' []
        stale_optimizer
       = get_chat_response example_env (Prompt (ChoiceUnclear unclear_message)) stale_optimizer
   \<and> pending_swap_context
        (snd (get_modification_response example_env unclear_message
                ''SUGGESTION_IMPLEMENT'' [] stale_optimizer)) = Some stale_pending"
proof -
  let ?p = "ImplementStale (exercise_to_swap_title stale_pending) (routine_name stale_pending)"
  let ?s0 = "stale_optimizer\<lparr>pending_swap_context := None\<rparr>"
  have h1: "pending_swap_context stale_optimizer = Some stale_pending"
    by (simp add: stale_optimizer_def)
  have h2: "ptype stale_pending = ''EXERCISE_SWAP''"
    by (simp add: stale_pending_def example_pending_def)
  have h3: "extract_choice (suggestions stale_pending) ''use Incline Press''
              = Some ''Incline Press''"
    by code_simp
  have h3': "extract_choice (suggestions stale_pending) unclear_message = None"
    by code_simp
  have h4: "current_exercises stale_pending = JList example_exercises"
    by (simp add: stale_pending_def example_pending_def)
  have h5: "\<forall>d. JObj d \<in> set example_exercises \<longrightarrow>
              dict_get d ''title'' \<noteq> JStr (exercise_to_swap_title stale_pending)"
    by (auto simp: stale_pending_def example_exercises_def dict_get_def)
  have valid: "truthy (routine_id stale_pending) \<and> exercise_to_swap_title stale_pending \<noteq> []
      \<and> ''Incline Press'' \<noteq> []
      \<and> (\<exists>ts tpl tid. cached_templates stale_optimizer = Some ts
            \<and> find (\<lambda>t. title t = Some ''Incline Press'') ts = Some tpl
            \<and> id tpl = Some tid \<and> tid \<noteq> [])
      \<and> (\<forall>x \<in> set example_exercises. \<exists>d. x = JObj d)"
    by (simp add: stale_pending_def example_pending_def stale_optimizer_def
        loaded_optimizer_def example_cache_def bench_press_def squat_def incline_press_def
        example_exercises_def)
  have g: "get_chat_response example_env (Prompt ?p) ?s0
             = (Inr ''ok'', snd (get_chat_response example_env (Prompt ?p) ?s0))"
    by (simp add: get_chat_response_def example_env_def)
  have c: "calls (snd (get_chat_response example_env (Prompt ?p) ?s0))
             = [Completion [(System, Prompt SystemDefault),
                      (User, Prompt (ImplementStale ''Deadlift'' (JStr ''Push Day'')))]
                 (Some ''ok'')]"
    by (simp add: get_chat_response_def example_env_def stale_optimizer_def
        loaded_optimizer_def fresh_optimizer_def stale_pending_def example_pending_def)
  have w: "routine_writes stale_optimizer = []"
    by (simp add: routine_writes_def stale_optimizer_def loaded_optimizer_def
        fresh_optimizer_def List.map_filter_def)
  have t: "exercise_to_swap_title stale_pending = ''Deadlift''"
    by (simp add: stale_pending_def)
  note t1 = stale_snapshot_issues_no_write[OF h1 h2 h4 h5, of example_env "''use Incline Press''" "[]"]
  note t2 = stale_snapshot_issues_no_write[OF h1 h2 h4 h5, of example_env unclear_message "[]"]
  from t1 h3 valid g
  have r: "get_modification_response example_env ''use Incline Press''
                ''SUGGESTION_IMPLEMENT'' [] stale_optimizer
        = (Inr ''ok'', (snd (get_chat_response example_env (Prompt ?p) ?s0))
                          \<lparr>pending_swap_context := None\<rparr>)"
    by blast
  have a: "routine_writes
        (snd (get_modification_response example_env ''use Incline Press''
                ''SUGGESTION_IMPLEMENT'' [] stale_optimizer)) = []
     \<and> pending_swap_context
        (snd (get_modification_response example_env ''use Incline Press''
                ''SUGGESTION_IMPLEMENT'' [] stale_optimizer)) = None"
    using t1 h3 w by simp
  have b: "routine_writes
        (snd (get_modification_response example_env unclear_message
                ''SUGGESTION_IMPLEMENT'' [] stale_optimizer)) = []
    \<and> get_modification_response example_env unclear_message ''SUGGESTION_IMPLEMENT'' []
        stale_optimizer
       = get_chat_response example_env (Prompt (ChoiceUnclear unclear_message)) stale_optimizer
    \<and> pending_swap_context
        (snd (get_modification_response example_env unclear_message
                ''SUGGESTION_IMPLEMENT'' [] stale_optimizer)) = Some stale_pending"
    using t2 h3' w by (simp add: h1)
  show ?thesis
    using r a b h3 h3' h4 w c t by (simp add: h1)
qed

subsection \<open>One state for every client\<close>





end
